theory Spec2Isabelle
  imports Complex_Main "HOL-Library.Word"
begin

section \<open>Python values and exceptions\<close>

text \<open>
  The wallet service is Python. Its dictionaries hold JSON-like values; the ones this
  development reads are strings, integers, floats or \<open>None\<close>. Amounts and durations are
  Python floats in the source; they are modelled as real numbers (no rounding, no NaN).
  Every \<open>raise\<close> of the source is a value of \<open>error\<close>; a function that can raise returns
  \<open>error + 'a\<close> with \<open>Inl\<close> the exception.
\<close>

type_synonym byte = "8 word"
type_synonym bytes = "byte list"

datatype error =
    KeyError string
  | TypeError
  | HexValueError
  | AddressValueError
  | OverflowError
  | EncodingError
  | SmartAccountNotConfigured
  | PerTransactionLimitExceeded real real
  | DailyLimitExceeded real real
  | InsufficientBalance real real
  | PaymentNotFound
  | PaymentExpired
  | BundlerNotConfigured
  | BundlerRpcError string
  | UserOpFailed string
  | ReceiptTimeout string real
  | ExternalFailure string

text \<open>
  The exception class of each error. \<open>ValueError\<close> is what the HTTP layer reports as a
  validation failure (status 400); \<open>RuntimeError\<close> is what the receipt loop catches.
\<close>

fun is_ValueError :: "error \<Rightarrow> bool" where
  "is_ValueError HexValueError = True"
| "is_ValueError AddressValueError = True"
| "is_ValueError SmartAccountNotConfigured = True"
| "is_ValueError (PerTransactionLimitExceeded a l) = True"
| "is_ValueError (DailyLimitExceeded d t) = True"
| "is_ValueError (InsufficientBalance b a) = True"
| "is_ValueError PaymentNotFound = True"
| "is_ValueError PaymentExpired = True"
| "is_ValueError e = False"

fun is_RuntimeError :: "error \<Rightarrow> bool" where
  "is_RuntimeError BundlerNotConfigured = True"
| "is_RuntimeError (BundlerRpcError m) = True"
| "is_RuntimeError (UserOpFailed m) = True"
| "is_RuntimeError e = False"

datatype jval = JNone | JInt int | JNum real | JStr string

type_synonym pydict = "string \<rightharpoonup> jval"

definition bnd :: "error + 'a \<Rightarrow> ('a \<Rightarrow> error + 'b) \<Rightarrow> error + 'b" where
  "bnd x f = (case x of Inl e \<Rightarrow> Inl e | Inr v \<Rightarrow> f v)"

text \<open>Truthiness (\<open>if v\<close>, \<open>not v\<close>, \<open>a and b\<close>).\<close>

fun truthy :: "jval \<Rightarrow> bool" where
  "truthy JNone = False"
| "truthy (JInt n) = (n \<noteq> 0)"
| "truthy (JNum r) = (r \<noteq> 0)"
| "truthy (JStr s) = (s \<noteq> [])"

text \<open>\<open>d[k]\<close>, \<open>d.get(k)\<close> and \<open>d.get(k, default)\<close>.\<close>

definition getitem :: "pydict \<Rightarrow> string \<Rightarrow> error + jval" where
  "getitem d k = (case d k of None \<Rightarrow> Inl (KeyError k) | Some v \<Rightarrow> Inr v)"

definition dict_get :: "pydict \<Rightarrow> string \<Rightarrow> jval" where
  "dict_get d k = (case d k of None \<Rightarrow> JNone | Some v \<Rightarrow> v)"

definition dict_get_default :: "pydict \<Rightarrow> string \<Rightarrow> jval \<Rightarrow> jval" where
  "dict_get_default d k dflt = (case d k of None \<Rightarrow> dflt | Some v \<Rightarrow> v)"

section \<open>Hexadecimal text and bytes\<close>

definition hexval :: "char \<Rightarrow> nat option" where
  "hexval c = (let n = (of_char c :: nat) in
      if 48 \<le> n \<and> n \<le> 57 then Some (n - 48)
      else if 97 \<le> n \<and> n \<le> 102 then Some (n - 87)
      else if 65 \<le> n \<and> n \<le> 70 then Some (n - 55)
      else None)"

definition is_hex :: "char \<Rightarrow> bool" where
  "is_hex c = (hexval c \<noteq> None)"

definition is_space :: "char \<Rightarrow> bool" where
  "is_space c = (let n = (of_char c :: nat) in n = 32 \<or> (9 \<le> n \<and> n \<le> 13))"

text \<open>\<open>s.replace("0x", "")\<close>: every occurrence of \<open>0x\<close>, left to right, is removed.\<close>

fun remove_0x :: "string \<Rightarrow> string" where
  "remove_0x (a # b # cs) =
     (if a = CHR ''0'' \<and> b = CHR ''x'' then remove_0x cs else a # remove_0x (b # cs))"
| "remove_0x cs = cs"

text \<open>
  \<open>bytes.fromhex\<close>: two hexadecimal digits per byte, ASCII whitespace skipped before a
  byte; anything else is a \<open>ValueError\<close>.
\<close>

fun fromhex :: "string \<Rightarrow> error + bytes" where
  "fromhex [] = Inr []"
| "fromhex (c # cs) =
     (if is_space c then fromhex cs
      else (case cs of
              [] \<Rightarrow> Inl HexValueError
            | d # ds \<Rightarrow>
                (case (hexval c, hexval d) of
                   (Some hi, Some lo) \<Rightarrow>
                     (case fromhex ds of
                        Inl e \<Rightarrow> Inl e
                      | Inr bs \<Rightarrow> Inr (of_nat (hi * 16 + lo) # bs))
                 | _ \<Rightarrow> Inl HexValueError)))"

text \<open>
  \<open>int(h, 16)\<close> on the spellings the wire format uses: an optional \<open>0x\<close> or \<open>0X\<close> prefix and
  at least one hexadecimal digit. The other spellings Python accepts (sign, surrounding
  whitespace, underscores between digits) are not modelled and read as \<open>ValueError\<close>.
\<close>

definition int16 :: "string \<Rightarrow> error + int" where
  "int16 s =
     (let body = (if take 2 s = ''0x'' \<or> take 2 s = ''0X'' then drop 2 s else s)
      in if body \<noteq> [] \<and> list_all is_hex body
         then Inr (int (foldl (\<lambda>a c. 16 * a + the (hexval c)) 0 body))
         else Inl HexValueError)"

text \<open>Big-endian bytes of a natural number, \<open>k\<close> bytes wide, and \<open>n.to_bytes(16, "big")\<close>.\<close>

fun be_bytes :: "nat \<Rightarrow> nat \<Rightarrow> bytes" where
  "be_bytes 0 n = []"
| "be_bytes (Suc k) n = be_bytes k (n div 256) @ [of_nat n]"

definition to_bytes16 :: "int \<Rightarrow> error + bytes" where
  "to_bytes16 n =
     (if 0 \<le> n \<and> n < 2 ^ 128 then Inr (be_bytes 16 (nat n)) else Inl OverflowError)"

text \<open>\<open>bytes.hex()\<close>: two lower-case digits per byte.\<close>

definition hexdigit :: "nat \<Rightarrow> char" where
  "hexdigit n = ''0123456789abcdef'' ! n"

definition hex_of_byte :: "byte \<Rightarrow> string" where
  "hex_of_byte b = [hexdigit (unat b div 16), hexdigit (unat b mod 16)]"

definition hex_of_bytes :: "bytes \<Rightarrow> string" where
  "hex_of_bytes bs = concat (map hex_of_byte bs)"

subsection \<open>The two local parsers of \<open>compute_user_op_hash\<close>\<close>

text \<open>
  \<open>_hex_to_int\<close> returns an \<open>int\<close> unchanged and parses a string in base 16; \<open>None\<close> is a
  \<open>TypeError\<close>. \<open>_hex_to_bytes\<close> maps a falsy value and \<open>"0x"\<close> to the empty byte string,
  and a non-zero integer has no \<open>replace\<close>.
\<close>

fun hex_to_int :: "jval \<Rightarrow> error + int" where
  "hex_to_int (JInt n) = Inr n"
| "hex_to_int (JStr s) = int16 s"
| "hex_to_int v = Inl TypeError"

fun hex_to_bytes :: "jval \<Rightarrow> error + bytes" where
  "hex_to_bytes JNone = Inr []"
| "hex_to_bytes (JInt n) = (if n = 0 then Inr [] else Inl TypeError)"
| "hex_to_bytes (JNum r) = (if r = 0 then Inr [] else Inl TypeError)"
| "hex_to_bytes (JStr s) = (if s = [] \<or> s = ''0x'' then Inr [] else fromhex (remove_0x s))"

section \<open>Addresses and the ABI encoder for static types\<close>

text \<open>
  The address helpers and the encoder are library code (\<open>eth_utils\<close>, \<open>eth_abi\<close>); the hash
  function \<open>keccak\<close> (\<open>Web3.keccak\<close>) is a parameter of every definition that uses it.
  A hexadecimal address is 40 digits after an optional prefix; a mixed-case one must
  carry the checksum capitalisation.
\<close>

definition lower :: "char \<Rightarrow> char" where
  "lower c = (let n = (of_char c :: nat) in if 65 \<le> n \<and> n \<le> 90 then char_of (n + 32) else c)"

definition upper :: "char \<Rightarrow> char" where
  "upper c = (let n = (of_char c :: nat) in if 97 \<le> n \<and> n \<le> 122 then char_of (n - 32) else c)"

definition is_upper :: "char \<Rightarrow> bool" where
  "is_upper c = (let n = (of_char c :: nat) in 65 \<le> n \<and> n \<le> 90)"

definition is_lower :: "char \<Rightarrow> bool" where
  "is_lower c = (let n = (of_char c :: nat) in 97 \<le> n \<and> n \<le> 122)"

definition remove_0x_prefix :: "string \<Rightarrow> string" where
  "remove_0x_prefix s = (if take 2 s = ''0x'' \<or> take 2 s = ''0X'' then drop 2 s else s)"

definition is_hex_address :: "string \<Rightarrow> bool" where
  "is_hex_address s = (length (remove_0x_prefix s) = 40 \<and> list_all is_hex (remove_0x_prefix s))"

definition ascii :: "string \<Rightarrow> bytes" where
  "ascii s = map (\<lambda>c. of_nat (of_char c)) s"

definition to_checksum_address :: "(bytes \<Rightarrow> bytes) \<Rightarrow> string \<Rightarrow> error + string" where
  "to_checksum_address keccak s =
     (if is_hex_address s
      then (let norm = map lower (remove_0x_prefix s);
                address_hash = hex_of_bytes (keccak (ascii norm))
            in Inr (''0x'' @ map (\<lambda>i. if 7 < the (hexval (address_hash ! i))
                                        then upper (norm ! i) else norm ! i) [0..<40]))
      else Inl AddressValueError)"

definition is_checksum_formatted :: "string \<Rightarrow> bool" where
  "is_checksum_formatted s =
     (let u = remove_0x_prefix s in (\<exists>c \<in> set u. is_upper c) \<and> (\<exists>c \<in> set u. is_lower c))"

definition is_address :: "(bytes \<Rightarrow> bytes) \<Rightarrow> string \<Rightarrow> bool" where
  "is_address keccak s =
     (is_hex_address s \<and>
      (is_checksum_formatted s \<longrightarrow> to_checksum_address keccak s = Inr s))"

definition abi_address :: "(bytes \<Rightarrow> bytes) \<Rightarrow> jval \<Rightarrow> error + bytes" where
  "abi_address keccak v =
     (case v of
        JStr s \<Rightarrow>
          (if is_address keccak s
           then (case fromhex (remove_0x_prefix s) of
                   Inl e \<Rightarrow> Inl e
                 | Inr b \<Rightarrow> Inr (replicate 12 0 @ b))
           else Inl EncodingError)
      | _ \<Rightarrow> Inl EncodingError)"

definition abi_uint256 :: "int \<Rightarrow> error + bytes" where
  "abi_uint256 n =
     (if 0 \<le> n \<and> n < 2 ^ 256 then Inr (be_bytes 32 (nat n)) else Inl EncodingError)"

definition abi_bytes32 :: "bytes \<Rightarrow> error + bytes" where
  "abi_bytes32 bs =
     (if length bs \<le> 32 then Inr (bs @ replicate (32 - length bs) 0) else Inl EncodingError)"

section \<open>The operation hash (userop/builder.py)\<close>

definition zero_address :: string where
  "zero_address = ''0x0000000000000000000000000000000000000000''"

definition op_init_code :: "pydict \<Rightarrow> error + bytes" where
  "op_init_code op =
     (if truthy (dict_get op ''factory'') \<and> op ''factory'' \<noteq> Some (JStr zero_address)
      then bnd (getitem op ''factory'') (\<lambda>f.
           bnd (hex_to_bytes f) (\<lambda>fb.
           bnd (hex_to_bytes (dict_get op ''factoryData'')) (\<lambda>fd.
           Inr (fb @ fd))))
      else Inr [])"

definition op_paymaster_and_data :: "pydict \<Rightarrow> error + bytes" where
  "op_paymaster_and_data op =
     (if truthy (dict_get op ''paymaster'')
      then bnd (getitem op ''paymaster'') (\<lambda>p.
           bnd (hex_to_bytes p) (\<lambda>pm.
           bnd (hex_to_int (dict_get_default op ''paymasterVerificationGasLimit'' (JStr ''0x0''))) (\<lambda>pm_vgl.
           bnd (hex_to_int (dict_get_default op ''paymasterPostOpGasLimit'' (JStr ''0x0''))) (\<lambda>pm_pogl.
           bnd (hex_to_bytes (dict_get op ''paymasterData'')) (\<lambda>pm_data.
           bnd (to_bytes16 pm_vgl) (\<lambda>b1.
           bnd (to_bytes16 pm_pogl) (\<lambda>b2.
           Inr (pm @ b1 @ b2 @ pm_data))))))))
      else Inr [])"

definition pack_halves :: "int \<Rightarrow> int \<Rightarrow> error + bytes" where
  "pack_halves hi lo = bnd (to_bytes16 hi) (\<lambda>a. bnd (to_bytes16 lo) (\<lambda>b. Inr (a @ b)))"

definition compute_user_op_hash ::
  "(bytes \<Rightarrow> bytes) \<Rightarrow> pydict \<Rightarrow> string \<Rightarrow> int \<Rightarrow> error + bytes" where
  "compute_user_op_hash keccak op entrypoint chain_id =
     bnd (getitem op ''sender'') (\<lambda>sender_v.
     bnd (case sender_v of JStr s \<Rightarrow> fromhex (remove_0x s) | _ \<Rightarrow> Inl TypeError) (\<lambda>sender.
     bnd (getitem op ''nonce'') (\<lambda>nonce_v.
     bnd (hex_to_int nonce_v) (\<lambda>nonce.
     bnd (op_init_code op) (\<lambda>init_code.
     bnd (getitem op ''callData'') (\<lambda>call_data_v.
     bnd (hex_to_bytes call_data_v) (\<lambda>call_data.
     bnd (hex_to_int (dict_get_default op ''verificationGasLimit'' (JStr ''0x0''))) (\<lambda>vgl.
     bnd (hex_to_int (dict_get_default op ''callGasLimit'' (JStr ''0x0''))) (\<lambda>cgl.
     bnd (pack_halves vgl cgl) (\<lambda>account_gas_limits.
     bnd (hex_to_int (dict_get_default op ''preVerificationGas'' (JStr ''0x0''))) (\<lambda>pre_verification_gas.
     bnd (hex_to_int (dict_get_default op ''maxPriorityFeePerGas'' (JStr ''0x0''))) (\<lambda>mpfpg.
     bnd (hex_to_int (dict_get_default op ''maxFeePerGas'' (JStr ''0x0''))) (\<lambda>mfpg.
     bnd (pack_halves mpfpg mfpg) (\<lambda>gas_fees.
     bnd (op_paymaster_and_data op) (\<lambda>paymaster_and_data.
     bnd (abi_address keccak sender_v) (\<lambda>w1.
     bnd (abi_uint256 nonce) (\<lambda>w2.
     bnd (abi_bytes32 (keccak init_code)) (\<lambda>w3.
     bnd (abi_bytes32 (keccak call_data)) (\<lambda>w4.
     bnd (abi_bytes32 account_gas_limits) (\<lambda>w5.
     bnd (abi_uint256 pre_verification_gas) (\<lambda>w6.
     bnd (abi_bytes32 gas_fees) (\<lambda>w7.
     bnd (abi_bytes32 (keccak paymaster_and_data)) (\<lambda>w8.
     bnd (abi_bytes32 (keccak (w1 @ w2 @ w3 @ w4 @ w5 @ w6 @ w7 @ w8))) (\<lambda>v1.
     bnd (abi_address keccak (JStr entrypoint)) (\<lambda>v2.
     bnd (abi_uint256 chain_id) (\<lambda>v3.
     Inr (keccak (v1 @ v2 @ v3))))))))))))))))))))))))))))"

section \<open>The hash as the specification words it\<close>

text \<open>
  The specification describes the hash over a typed operation: byte strings and
  numbers, the init payload present only when there is a factory, the paymaster data
  present only when the operation is sponsored. \<open>hash_spec\<close> follows that wording:
  hash the init payload and the call payload, pack the two gas limits and the two fees as
  16-byte halves of one word, hash the paymaster data, tuple-encode and hash, then
  tuple-encode with the entry point and the chain id and hash again. A tuple of static
  values is encoded as the concatenation of their 32-byte words.
\<close>

record operation =
  op_sender :: bytes
  op_nonce :: nat
  op_factory :: "bytes option"
  op_factory_data :: bytes
  op_call_data :: bytes
  op_verification_gas_limit :: nat
  op_call_gas_limit :: nat
  op_pre_verification_gas :: nat
  op_max_priority_fee_per_gas :: nat
  op_max_fee_per_gas :: nat
  op_paymaster :: "bytes option"
  op_paymaster_verification_gas_limit :: nat
  op_paymaster_post_op_gas_limit :: nat
  op_paymaster_data :: bytes

definition init_payload :: "operation \<Rightarrow> bytes" where
  "init_payload t = (case op_factory t of None \<Rightarrow> [] | Some f \<Rightarrow> f @ op_factory_data t)"

definition paymaster_payload :: "operation \<Rightarrow> bytes" where
  "paymaster_payload t =
     (case op_paymaster t of
        None \<Rightarrow> []
      | Some p \<Rightarrow> p @ be_bytes 16 (op_paymaster_verification_gas_limit t)
                   @ be_bytes 16 (op_paymaster_post_op_gas_limit t) @ op_paymaster_data t)"

definition two_halves :: "nat \<Rightarrow> nat \<Rightarrow> bytes" where
  "two_halves hi lo = be_bytes 16 hi @ be_bytes 16 lo"

definition address_word :: "bytes \<Rightarrow> bytes" where
  "address_word a = replicate 12 0 @ a"

definition uint_word :: "nat \<Rightarrow> bytes" where
  "uint_word n = be_bytes 32 n"

definition hash_spec :: "(bytes \<Rightarrow> bytes) \<Rightarrow> operation \<Rightarrow> bytes \<Rightarrow> nat \<Rightarrow> bytes" where
  "hash_spec keccak t entry_point chain_id =
     (let init_code_hash = keccak (init_payload t);
          call_data_hash = keccak (op_call_data t);
          gas_limits_packed = two_halves (op_verification_gas_limit t) (op_call_gas_limit t);
          fees_packed = two_halves (op_max_priority_fee_per_gas t) (op_max_fee_per_gas t);
          paymaster_hash = keccak (paymaster_payload t);
          inner_hash = keccak (address_word (op_sender t) @ uint_word (op_nonce t)
                         @ init_code_hash @ call_data_hash @ gas_limits_packed
                         @ uint_word (op_pre_verification_gas t) @ fees_packed @ paymaster_hash)
      in keccak (inner_hash @ address_word entry_point @ uint_word chain_id))"

text \<open>
  \<open>wire_form keccak op t\<close>: the dictionary \<open>op\<close> carries the typed operation \<open>t\<close>, every
  field read with the parser the source applies to it and within the width the wire
  format gives it.
\<close>

definition has_factory :: "pydict \<Rightarrow> bool" where
  "has_factory op = (truthy (dict_get op ''factory'') \<and> op ''factory'' \<noteq> Some (JStr zero_address))"

definition reads_as :: "pydict \<Rightarrow> string \<Rightarrow> nat \<Rightarrow> nat \<Rightarrow> bool" where
  "reads_as op k n bound =
     (hex_to_int (dict_get_default op k (JStr ''0x0'')) = Inr (int n) \<and> n < bound)"

definition wire_form :: "(bytes \<Rightarrow> bytes) \<Rightarrow> pydict \<Rightarrow> operation \<Rightarrow> bool" where
  "wire_form keccak op t =
     ((case op ''sender'' of
         Some (JStr s) \<Rightarrow> (case fromhex (remove_0x s) of Inr b \<Rightarrow> True | Inl e \<Rightarrow> False)
                          \<and> abi_address keccak (JStr s) = Inr (replicate 12 0 @ op_sender t)
       | _ \<Rightarrow> False) \<and>
      (case op ''nonce'' of
         Some v \<Rightarrow> hex_to_int v = Inr (int (op_nonce t)) \<and> op_nonce t < 2 ^ 256
       | None \<Rightarrow> False) \<and>
      (case op_factory t of
         None \<Rightarrow> \<not> has_factory op
       | Some f \<Rightarrow> has_factory op \<and> hex_to_bytes (dict_get op ''factory'') = Inr f
                  \<and> hex_to_bytes (dict_get op ''factoryData'') = Inr (op_factory_data t)) \<and>
      (case op ''callData'' of
         Some v \<Rightarrow> hex_to_bytes v = Inr (op_call_data t)
       | None \<Rightarrow> False) \<and>
      reads_as op ''verificationGasLimit'' (op_verification_gas_limit t) (2 ^ 128) \<and>
      reads_as op ''callGasLimit'' (op_call_gas_limit t) (2 ^ 128) \<and>
      reads_as op ''preVerificationGas'' (op_pre_verification_gas t) (2 ^ 256) \<and>
      reads_as op ''maxPriorityFeePerGas'' (op_max_priority_fee_per_gas t) (2 ^ 128) \<and>
      reads_as op ''maxFeePerGas'' (op_max_fee_per_gas t) (2 ^ 128) \<and>
      (case op_paymaster t of
         None \<Rightarrow> \<not> truthy (dict_get op ''paymaster'')
       | Some p \<Rightarrow> truthy (dict_get op ''paymaster'')
                  \<and> hex_to_bytes (dict_get op ''paymaster'') = Inr p
                  \<and> reads_as op ''paymasterVerificationGasLimit''
                       (op_paymaster_verification_gas_limit t) (2 ^ 128)
                  \<and> reads_as op ''paymasterPostOpGasLimit''
                       (op_paymaster_post_op_gas_limit t) (2 ^ 128)
                  \<and> hex_to_bytes (dict_get op ''paymasterData'') = Inr (op_paymaster_data t)))"

section \<open>The store, the outbound calls and the environment\<close>

text \<open>
  Instants are microseconds since the epoch (UTC); the source keeps them as ISO-8601 text
  and compares them after parsing. The four tables the payment core uses are lists of
  rows, oldest first. The store itself is taken to answer every query (a failing
  connection is not modelled).
\<close>

type_synonym time = int

datatype pstatus = Pending | Confirmed | Cancelled | Expired

record user =
  user_id :: string
  wallet_address :: string
  smart_account_address :: "string option"
  smart_account_deployed :: bool
  privy_wallet_id :: string
  per_transaction_limit :: "real option"
  daily_limit :: "real option"
  require_confirmation_above :: "real option"

record pending_payment =
  pp_id :: string
  pp_user_id :: string
  pp_to_address :: string
  pp_amount :: real
  pp_memo :: "string option"
  pp_expires_at :: time
  pp_status :: pstatus

record transaction =
  tx_user_id :: string
  tx_type :: string
  tx_amount :: real
  tx_from_address :: string
  tx_to_address :: string
  tx_memo :: "string option"
  tx_hash :: string
  tx_user_op_hash :: "string option"
  tx_status :: "string option"
  tx_created_at :: time

datatype evval = EStr string | ENum real | ENone

record event =
  ev_user_id :: string
  ev_type :: string
  ev_data :: "(string \<times> evval) list"

text \<open>
  Every request that leaves the process (chain node, relay, signing oracle) is recorded,
  in order, in \<open>calls\<close>. The source has no such list; it is the trace that lets
  "no operation is built, signed or submitted" be stated.
\<close>

datatype call =
    BalanceOf string
  | GetNonce string
  | BundlerRpc string pydict
  | GasPrice
  | Sign string string
  | ReceiptPoll string
  | BlockNumber
  | GetLogs int int

record world =
  wallet_users :: "user list"
  wallet_transactions :: "transaction list"
  wallet_pending_payments :: "pending_payment list"
  wallet_events :: "event list"
  calls :: "call list"

definition log_call :: "call \<Rightarrow> world \<Rightarrow> world" where
  "log_call c w = w\<lparr>calls := calls w @ [c]\<rparr>"

text \<open>
  What a JSON-RPC request to the relay can come back with (\<open>BundlerClient._rpc\<close>): a
  result, an \<open>error\<close> member (raised as \<open>RuntimeError\<close>), or a failure of the HTTP exchange
  (raised by \<open>httpx\<close>, not a \<open>RuntimeError\<close>).
\<close>

datatype 'a rpc = RpcResult 'a | RpcError string | HttpFailure string

fun rpc_value :: "'a rpc \<Rightarrow> error + 'a" where
  "rpc_value (RpcResult r) = Inr r"
| "rpc_value (RpcError m) = Inl (BundlerRpcError m)"
| "rpc_value (HttpFailure m) = Inl (ExternalFailure m)"

record receipt =
  rc_success :: bool
  rc_transaction_hash :: "string option"
  rc_reason :: "string option"

text \<open>The contract calls handed to the library encoder (\<open>build_transaction(...)["data"]\<close>).\<close>

datatype contract_call =
    Transfer string int
  | Approve string int
  | Deposit bytes string int
  | Execute string int bytes
  | ExecuteBatch "string list" "int list" "bytes list"
  | CreateAccount string int

record transfer_event =
  te_from :: string
  te_to :: string
  te_value :: real
  te_tx_hash :: string
  te_block_number :: int

text \<open>
  The environment of one service call: the configuration constants of \<open>config.py\<close>, the
  library functions, the clock, and what each outside party answers. The \<open>k\<close>-th reading
  of the clock during the call is \<open>clock k\<close>; the \<open>i\<close>-th receipt query for a hash is
  answered by \<open>rpc_receipt h i\<close>.
\<close>

record env =
  usdc_contract_address :: string
  entrypoint_address :: string
  chain_id :: int
  simple_account_factory :: string
  bundler_rpc_url :: string
  lib_keccak :: "bytes \<Rightarrow> bytes"
  lib_encode :: "contract_call \<Rightarrow> error + bytes"
  clock :: "nat \<Rightarrow> time"
  store_now :: time
  store_new_id :: string
  chain_balance :: "string \<Rightarrow> error + nat"
  chain_nonce :: "string \<Rightarrow> error + int"
  chain_block_number :: "error + int"
  chain_transfer_events :: "int \<Rightarrow> int \<Rightarrow> error + transfer_event list"
  rpc_pm_stub :: "pydict \<Rightarrow> pydict rpc"
  rpc_estimate_gas :: "pydict \<Rightarrow> pydict rpc"
  rpc_gas_price :: "error + jval"
  rpc_pm_data :: "pydict \<Rightarrow> pydict rpc"
  privy_sign :: "string \<Rightarrow> string \<Rightarrow> error + string"
  rpc_send :: "pydict \<Rightarrow> string rpc"
  rpc_receipt :: "string \<Rightarrow> nat \<Rightarrow> receipt option rpc"

section \<open>Call data (chain/usdc.py, userop/builder.py)\<close>

definition USDC_DECIMALS :: nat where
  "USDC_DECIMALS = 6"

text \<open>\<open>int(x)\<close> on a float truncates towards zero.\<close>

definition py_int :: "real \<Rightarrow> int" where
  "py_int x = (if 0 \<le> x then \<lfloor>x\<rfloor> else \<lceil>x\<rceil>)"

text \<open>\<open>hex(n)\<close>.\<close>

fun hex_digits :: "nat \<Rightarrow> string" where
  "hex_digits n = (if n < 16 then [hexdigit n] else hex_digits (n div 16) @ [hexdigit (n mod 16)])"

declare hex_digits.simps [simp del]

definition py_hex :: "int \<Rightarrow> string" where
  "py_hex n = (if n < 0 then ''-0x'' @ hex_digits (nat (- n)) else ''0x'' @ hex_digits (nat n))"

definition encoded :: "env \<Rightarrow> contract_call \<Rightarrow> error + string" where
  "encoded env c = bnd (lib_encode env c) (\<lambda>bs. Inr (''0x'' @ hex_of_bytes bs))"

definition build_transfer_calldata :: "env \<Rightarrow> string \<Rightarrow> real \<Rightarrow> error + string" where
  "build_transfer_calldata env to amount =
     bnd (to_checksum_address (lib_keccak env) (usdc_contract_address env)) (\<lambda>usdc.
     bnd (to_checksum_address (lib_keccak env) to) (\<lambda>dest.
     encoded env (Transfer dest (py_int (amount * 10 ^ USDC_DECIMALS)))))"

definition build_approve_calldata :: "env \<Rightarrow> string \<Rightarrow> int \<Rightarrow> error + string" where
  "build_approve_calldata env spender amount =
     bnd (to_checksum_address (lib_keccak env) (usdc_contract_address env)) (\<lambda>usdc.
     bnd (to_checksum_address (lib_keccak env) spender) (\<lambda>sp.
     encoded env (Approve sp amount)))"

definition build_deposit_calldata :: "env \<Rightarrow> string \<Rightarrow> string \<Rightarrow> int \<Rightarrow> error + string" where
  "build_deposit_calldata env order_id_bytes32 seller amount =
     bnd (fromhex (remove_0x order_id_bytes32)) (\<lambda>order_bytes.
     bnd (to_checksum_address (lib_keccak env) seller) (\<lambda>s.
     encoded env (Deposit order_bytes s amount)))"

definition data_bytes :: "string \<Rightarrow> error + bytes" where
  "data_bytes d = (if d \<noteq> [] then fromhex (remove_0x d) else Inr [])"

definition build_execute_calldata :: "env \<Rightarrow> string \<Rightarrow> int \<Rightarrow> string \<Rightarrow> error + string" where
  "build_execute_calldata env to val d =
     bnd (data_bytes d) (\<lambda>bs.
     bnd (to_checksum_address (lib_keccak env) to) (\<lambda>dest.
     encoded env (Execute dest val bs)))"

record batch_call =
  bc_to :: string
  bc_value :: int
  bc_data :: string

fun each :: "('a \<Rightarrow> error + 'b) \<Rightarrow> 'a list \<Rightarrow> error + 'b list" where
  "each f [] = Inr []"
| "each f (x # xs) = bnd (f x) (\<lambda>y. bnd (each f xs) (\<lambda>ys. Inr (y # ys)))"

definition build_execute_batch_calldata :: "env \<Rightarrow> batch_call list \<Rightarrow> error + string" where
  "build_execute_batch_calldata env cs =
     bnd (each (\<lambda>c. to_checksum_address (lib_keccak env) (bc_to c)) cs) (\<lambda>dests.
     bnd (each (\<lambda>c. data_bytes (bc_data c)) cs) (\<lambda>funcs.
     encoded env (ExecuteBatch dests (map bc_value cs) funcs)))"

section \<open>Building an operation (userop/builder.py)\<close>

definition get_nonce :: "env \<Rightarrow> string \<Rightarrow> world \<Rightarrow> (error + int) \<times> world" where
  "get_nonce env sender w =
     (case bnd (to_checksum_address (lib_keccak env) (entrypoint_address env)) (\<lambda>ep.
           to_checksum_address (lib_keccak env) sender) of
        Inl e \<Rightarrow> (Inl e, w)
      | Inr a \<Rightarrow> (chain_nonce env a, log_call (GetNonce a) w))"

definition dummy_signature :: string where
  "dummy_signature = ''0x'' @ concat (replicate 31 ''00'') @ ''01''
                       @ concat (replicate 31 ''00'') @ ''01'' @ ''1b''"

definition factory_fields :: "env \<Rightarrow> bool \<Rightarrow> string \<Rightarrow> error + string \<times> string" where
  "factory_fields env is_deployed owner =
     (if is_deployed then Inr (zero_address, ''0x'')
      else bnd (to_checksum_address (lib_keccak env) (simple_account_factory env)) (\<lambda>f.
           bnd (to_checksum_address (lib_keccak env) owner) (\<lambda>own.
           bnd (encoded env (CreateAccount own 0)) (\<lambda>factory_data.
           Inr (simple_account_factory env, factory_data)))))"

definition build_user_operation ::
  "env \<Rightarrow> string \<Rightarrow> string \<Rightarrow> bool \<Rightarrow> string \<Rightarrow> world \<Rightarrow> (error + pydict) \<times> world" where
  "build_user_operation env sender call_data is_deployed owner w =
     (case get_nonce env sender w of
        (Inl e, w1) \<Rightarrow> (Inl e, w1)
      | (Inr nonce, w1) \<Rightarrow>
          (bnd (factory_fields env is_deployed owner) (\<lambda>(factory, factory_data).
           bnd (to_checksum_address (lib_keccak env) sender) (\<lambda>s.
           bnd (if factory \<noteq> zero_address
                then bnd (to_checksum_address (lib_keccak env) factory) (\<lambda>f. Inr (JStr f))
                else Inr JNone) (\<lambda>f.
           Inr [''sender'' \<mapsto> JStr s,
                ''nonce'' \<mapsto> JStr (py_hex nonce),
                ''factory'' \<mapsto> f,
                ''factoryData'' \<mapsto> (if factory \<noteq> zero_address then JStr factory_data else JNone),
                ''callData'' \<mapsto> JStr call_data,
                ''callGasLimit'' \<mapsto> JStr ''0x0'',
                ''verificationGasLimit'' \<mapsto> JStr ''0x0'',
                ''preVerificationGas'' \<mapsto> JStr ''0x0'',
                ''maxFeePerGas'' \<mapsto> JStr ''0x0'',
                ''maxPriorityFeePerGas'' \<mapsto> JStr ''0x0'',
                ''signature'' \<mapsto> JStr dummy_signature,
                ''paymaster'' \<mapsto> JNone,
                ''paymasterData'' \<mapsto> JNone,
                ''paymasterVerificationGasLimit'' \<mapsto> JNone,
                ''paymasterPostOpGasLimit'' \<mapsto> JNone]))), w1))"

section \<open>The relay client (userop/bundler.py)\<close>

text \<open>\<open>{k: v for k, v in user_op.items() if v is not None}\<close>.\<close>

definition clean_op :: "pydict \<Rightarrow> pydict" where
  "clean_op op = (\<lambda>k. case op k of Some JNone \<Rightarrow> None | v \<Rightarrow> v)"

text \<open>\<open>for key in keys: if key in reply and reply[key]: user_op[key] = reply[key]\<close>.\<close>

definition merge_keys :: "string list \<Rightarrow> pydict \<Rightarrow> pydict \<Rightarrow> pydict" where
  "merge_keys ks reply op =
     foldl (\<lambda>acc k. case reply k of
                       Some v \<Rightarrow> if truthy v then acc(k \<mapsto> v) else acc
                     | None \<Rightarrow> acc) op ks"

definition paymaster_keys :: "string list" where
  "paymaster_keys = [''paymaster'', ''paymasterData'', ''paymasterVerificationGasLimit'',
                     ''paymasterPostOpGasLimit'']"

definition gas_keys :: "string list" where
  "gas_keys = [''preVerificationGas'', ''callGasLimit'', ''verificationGasLimit'',
               ''paymasterVerificationGasLimit'', ''paymasterPostOpGasLimit'']"

definition sponsor_user_op :: "env \<Rightarrow> pydict \<Rightarrow> world \<Rightarrow> (error + pydict) \<times> world" where
  "sponsor_user_op env user_op w =
     (let w1 = log_call (BundlerRpc ''pm_getPaymasterStubData'' (clean_op user_op)) w in
      case rpc_value (rpc_pm_stub env (clean_op user_op)) of
        Inl e \<Rightarrow> (Inl e, w1)
      | Inr stub \<Rightarrow>
          (let op1 = merge_keys paymaster_keys stub user_op;
               w2 = log_call (BundlerRpc ''eth_estimateUserOperationGas'' (clean_op op1)) w1 in
           case rpc_value (rpc_estimate_gas env (clean_op op1)) of
             Inl e \<Rightarrow> (Inl e, w2)
           | Inr gas \<Rightarrow>
               (let op2 = merge_keys gas_keys gas op1;
                    w3 = log_call GasPrice w2 in
                case rpc_gas_price env of
                  Inl e \<Rightarrow> (Inl e, w3)
                | Inr gas_price \<Rightarrow>
                    (let op3 = op2(''maxFeePerGas'' \<mapsto> gas_price,
                                   ''maxPriorityFeePerGas'' \<mapsto> gas_price);
                         w4 = log_call (BundlerRpc ''pm_getPaymasterData'' (clean_op op3)) w3 in
                     case rpc_value (rpc_pm_data env (clean_op op3)) of
                       Inl e \<Rightarrow> (Inl e, w4)
                     | Inr pm_data \<Rightarrow> (Inr (merge_keys paymaster_keys pm_data op3), w4)))))"

definition send_user_op :: "env \<Rightarrow> pydict \<Rightarrow> world \<Rightarrow> (error + string) \<times> world" where
  "send_user_op env user_op w =
     (rpc_value (rpc_send env (clean_op user_op)),
      log_call (BundlerRpc ''eth_sendUserOperation'' (clean_op user_op)) w)"

text \<open>\<open>needle in haystack\<close> on strings.\<close>

fun contains :: "string \<Rightarrow> string \<Rightarrow> bool" where
  "contains needle [] = (needle = [])"
| "contains needle (c # cs) =
     (take (length needle) (c # cs) = needle \<or> contains needle cs)"

text \<open>
  \<open>wait_for_receipt\<close>. One round of the loop queries the relay once. A receipt ends the
  loop: it is returned when \<open>success\<close> is true and raised as \<open>UserOp failed\<close> otherwise. A
  null result, and an RPC error whose text does not contain \<open>UserOp failed\<close>, sleep for
  \<open>interval\<close> and go round again. Any other exception leaves the loop. With a
  non-positive \<open>interval\<close> the loop need not end, so the function is partial: \<open>None\<close> is
  "does not return". \<open>polls\<close> counts the queries made so far.
\<close>

partial_function (option) wait_loop ::
  "env \<Rightarrow> string \<Rightarrow> real \<Rightarrow> real \<Rightarrow> real \<Rightarrow> nat \<Rightarrow> world
     \<Rightarrow> ((error + receipt) \<times> world) option" where
  "wait_loop env user_op_hash timeout interval elapsed polls w =
     (if elapsed < timeout
      then (case rpc_receipt env user_op_hash polls of
              RpcResult (Some result) \<Rightarrow>
                (if \<not> rc_success result
                 then Some (Inl (UserOpFailed (case rc_reason result of
                                                 None \<Rightarrow> ''unknown'' | Some r \<Rightarrow> r)),
                            log_call (ReceiptPoll user_op_hash) w)
                 else Some (Inr result, log_call (ReceiptPoll user_op_hash) w))
            | RpcResult None \<Rightarrow>
                wait_loop env user_op_hash timeout interval (elapsed + interval) (Suc polls)
                  (log_call (ReceiptPoll user_op_hash) w)
            | RpcError m \<Rightarrow>
                (if contains ''UserOp failed'' (''Bundler RPC error: '' @ m)
                 then Some (Inl (BundlerRpcError m), log_call (ReceiptPoll user_op_hash) w)
                 else wait_loop env user_op_hash timeout interval (elapsed + interval)
                        (Suc polls) (log_call (ReceiptPoll user_op_hash) w))
            | HttpFailure m \<Rightarrow>
                Some (Inl (ExternalFailure m), log_call (ReceiptPoll user_op_hash) w))
      else Some (Inl (ReceiptTimeout user_op_hash timeout), w))"

definition wait_for_receipt ::
  "env \<Rightarrow> string \<Rightarrow> real \<Rightarrow> real \<Rightarrow> world \<Rightarrow> ((error + receipt) \<times> world) option" where
  "wait_for_receipt env user_op_hash timeout interval w =
     wait_loop env user_op_hash timeout interval 0 0 w"

section \<open>The payment services (services/payment.py)\<close>

definition PENDING_PAYMENT_TTL_MINUTES :: int where
  "PENDING_PAYMENT_TTL_MINUTES = 10"

definition minutes :: "int \<Rightarrow> time" where
  "minutes n = n * 60000000"

definition get_sender :: "user \<Rightarrow> error + string" where
  "get_sender u =
     (case smart_account_address u of
        None \<Rightarrow> Inl SmartAccountNotConfigured
      | Some sa \<Rightarrow> if sa = [] then Inl SmartAccountNotConfigured else Inr sa)"

text \<open>Midnight (UTC) of the day of an instant.\<close>

definition day_start :: "time \<Rightarrow> time" where
  "day_start t = t - t mod 86400000000"

definition per_tx_limit :: "user \<Rightarrow> real" where
  "per_tx_limit u = (case per_transaction_limit u of None \<Rightarrow> 10 | Some l \<Rightarrow> l)"

definition daily_limit_of :: "user \<Rightarrow> real" where
  "daily_limit_of u = (case daily_limit u of None \<Rightarrow> 50 | Some l \<Rightarrow> l)"

definition confirmation_threshold :: "user \<Rightarrow> real" where
  "confirmation_threshold u = (case require_confirmation_above u of None \<Rightarrow> 5 | Some l \<Rightarrow> l)"

definition today_total :: "env \<Rightarrow> user \<Rightarrow> world \<Rightarrow> real" where
  "today_total env u w =
     sum_list (map tx_amount
       (filter (\<lambda>tx. tx_user_id tx = user_id u
                     \<and> (tx_type tx = ''payment'' \<or> tx_type tx = ''withdrawal'')
                     \<and> day_start (clock env 0) \<le> tx_created_at tx)
          (wallet_transactions w)))"

definition check_limits :: "env \<Rightarrow> user \<Rightarrow> real \<Rightarrow> world \<Rightarrow> error + unit" where
  "check_limits env u amount w =
     (if amount > per_tx_limit u
      then Inl (PerTransactionLimitExceeded amount (per_tx_limit u))
      else if today_total env u w + amount > daily_limit_of u
      then Inl (DailyLimitExceeded (daily_limit_of u) (today_total env u w))
      else Inr ())"

definition get_balance :: "env \<Rightarrow> string \<Rightarrow> world \<Rightarrow> (error + real) \<times> world" where
  "get_balance env address w =
     (case bnd (to_checksum_address (lib_keccak env) (usdc_contract_address env)) (\<lambda>usdc.
           to_checksum_address (lib_keccak env) address) of
        Inl e \<Rightarrow> (Inl e, w)
      | Inr a \<Rightarrow>
          (bnd (chain_balance env a) (\<lambda>raw. Inr (real raw / 10 ^ USDC_DECIMALS)),
           log_call (BalanceOf a) w))"

text \<open>
  \<open>_submit_user_op\<close>: build, sponsor, hash, sign, submit, await the receipt. The check of
  the recovered signer (lines 98 to 106) only writes to the log and swallows every
  exception, so it has no counterpart here. The receipt is awaited with the defaults
  of \<open>wait_for_receipt\<close>: 60 seconds, polling every 2.
\<close>

definition mark_deployed :: "user \<Rightarrow> world \<Rightarrow> world" where
  "mark_deployed u w =
     w\<lparr>wallet_users := map (\<lambda>r. if user_id r = user_id u
                                  then r\<lparr>smart_account_deployed := True\<rparr> else r)
                           (wallet_users w)\<rparr>"

definition submit_user_op ::
  "env \<Rightarrow> user \<Rightarrow> string \<Rightarrow> world \<Rightarrow> ((error + string \<times> string) \<times> world) option" where
  "submit_user_op env u call_data w =
     (case get_sender u of
        Inl e \<Rightarrow> Some (Inl e, w)
      | Inr sender \<Rightarrow>
     (case build_user_operation env sender call_data (smart_account_deployed u)
             (wallet_address u) w of
        (Inl e, w1) \<Rightarrow> Some (Inl e, w1)
      | (Inr op, w1) \<Rightarrow>
     (if bundler_rpc_url env = [] then Some (Inl BundlerNotConfigured, w1) else
     (case sponsor_user_op env op w1 of
        (Inl e, w2) \<Rightarrow> Some (Inl e, w2)
      | (Inr op2, w2) \<Rightarrow>
     (case compute_user_op_hash (lib_keccak env) op2 (entrypoint_address env) (chain_id env) of
        Inl e \<Rightarrow> Some (Inl e, w2)
      | Inr op_hash \<Rightarrow>
     (let op_hash_hex = ''0x'' @ remove_0x (hex_of_bytes op_hash);
          w3 = log_call (Sign (privy_wallet_id u) op_hash_hex) w2 in
      case privy_sign env (privy_wallet_id u) op_hash_hex of
        Inl e \<Rightarrow> Some (Inl e, w3)
      | Inr signature \<Rightarrow>
     (case send_user_op env (op2(''signature'' \<mapsto> JStr signature)) w3 of
        (Inl e, w4) \<Rightarrow> Some (Inl e, w4)
      | (Inr user_op_hash, w4) \<Rightarrow>
     (case wait_for_receipt env user_op_hash 60 2 w4 of
        None \<Rightarrow> None
      | Some (Inl e, w5) \<Rightarrow> Some (Inl e, w5)
      | Some (Inr receipt, w5) \<Rightarrow>
          Some (Inr (user_op_hash,
                     (case rc_transaction_hash receipt of
                        None \<Rightarrow> user_op_hash | Some h \<Rightarrow> h)),
                if \<not> smart_account_deployed u then mark_deployed u w5 else w5)))))))))"

datatype result =
    PendingConfirmation string time
  | Completed string string

definition memo_val :: "string option \<Rightarrow> evval" where
  "memo_val m = (case m of None \<Rightarrow> ENone | Some s \<Rightarrow> EStr s)"

definition transaction_row ::
  "env \<Rightarrow> user \<Rightarrow> string \<Rightarrow> real \<Rightarrow> string \<Rightarrow> string \<Rightarrow> string option \<Rightarrow> string \<Rightarrow> string
     \<Rightarrow> transaction" where
  "transaction_row env u ty amount sender to memo txh user_op_hash =
     \<lparr>tx_user_id = user_id u, tx_type = ty, tx_amount = amount, tx_from_address = sender,
      tx_to_address = to, tx_memo = memo, tx_hash = txh,
      tx_user_op_hash = Some user_op_hash, tx_status = None, tx_created_at = store_now env\<rparr>"

definition execute_payment ::
  "env \<Rightarrow> user \<Rightarrow> string \<Rightarrow> real \<Rightarrow> string option \<Rightarrow> world
     \<Rightarrow> ((error + result) \<times> world) option" where
  "execute_payment env u to_address amount memo w =
     (case get_sender u of
        Inl e \<Rightarrow> Some (Inl e, w)
      | Inr sender \<Rightarrow>
     (case bnd (build_transfer_calldata env to_address amount) (\<lambda>inner_calldata.
           build_execute_calldata env (usdc_contract_address env) 0 inner_calldata) of
        Inl e \<Rightarrow> Some (Inl e, w)
      | Inr call_data \<Rightarrow>
     (case submit_user_op env u call_data w of
        None \<Rightarrow> None
      | Some (Inl e, w1) \<Rightarrow> Some (Inl e, w1)
      | Some (Inr (user_op_hash, txh), w1) \<Rightarrow>
          Some (Inr (Completed txh user_op_hash),
                w1\<lparr>wallet_transactions := wallet_transactions w1 @
                      [transaction_row env u ''payment'' amount sender to_address memo txh
                         user_op_hash],
                    wallet_events := wallet_events w1 @
                      [\<lparr>ev_user_id = user_id u, ev_type = ''payment_sent'',
                        ev_data = [(''to'', EStr to_address), (''amount'', ENum amount),
                                   (''tx_hash'', EStr txh),
                                   (''user_op_hash'', EStr user_op_hash),
                                   (''memo'', memo_val memo)]\<rparr>]\<rparr>))))"

text \<open>
  Modelled from the spec: the schema of \<open>wallet_pending_payments\<close> is not part of the
  sources. The insert of \<open>pay\<close> gives neither an id nor a status; the store chooses the id
  (\<open>store_new_id\<close>) and, as the specification words it, a new row is \<open>pending\<close>.
\<close>

definition new_pending_payment ::
  "env \<Rightarrow> user \<Rightarrow> string \<Rightarrow> real \<Rightarrow> string option \<Rightarrow> time \<Rightarrow> pending_payment" where
  "new_pending_payment env u to_address amount memo expires_at =
     \<lparr>pp_id = store_new_id env, pp_user_id = user_id u, pp_to_address = to_address,
      pp_amount = amount, pp_memo = memo, pp_expires_at = expires_at, pp_status = Pending\<rparr>"

definition pay ::
  "env \<Rightarrow> user \<Rightarrow> string \<Rightarrow> real \<Rightarrow> string option \<Rightarrow> world
     \<Rightarrow> ((error + result) \<times> world) option" where
  "pay env u to_address amount memo w =
     (case get_sender u of
        Inl e \<Rightarrow> Some (Inl e, w)
      | Inr sender \<Rightarrow>
     (case check_limits env u amount w of
        Inl e \<Rightarrow> Some (Inl e, w)
      | Inr ok \<Rightarrow>
     (case get_balance env sender w of
        (Inl e, w1) \<Rightarrow> Some (Inl e, w1)
      | (Inr balance, w1) \<Rightarrow>
     (if balance < amount then Some (Inl (InsufficientBalance balance amount), w1)
      else if amount > confirmation_threshold u
      then (let expires_at = clock env 1 + minutes PENDING_PAYMENT_TTL_MINUTES;
                row = new_pending_payment env u to_address amount memo expires_at
            in Some (Inr (PendingConfirmation (pp_id row) expires_at),
                     w1\<lparr>wallet_pending_payments := wallet_pending_payments w1 @ [row],
                        wallet_events := wallet_events w1 @
                          [\<lparr>ev_user_id = user_id u,
                            ev_type = ''payment_requires_confirmation'',
                            ev_data = [(''payment_id'', EStr (pp_id row)),
                                       (''to'', EStr to_address), (''amount'', ENum amount),
                                       (''memo'', memo_val memo)]\<rparr>]\<rparr>))
      else execute_payment env u to_address amount memo w1))))"

text \<open>
  The HTTP entry point (api/routes.py with \<open>PayRequest\<close> of api/models.py): the request
  model demands \<open>amount > 0\<close> before the handler runs; the handler then calls \<open>pay\<close>.
\<close>

datatype reply = Rejected | Handled "error + result"

definition pay_endpoint ::
  "env \<Rightarrow> user \<Rightarrow> string \<Rightarrow> real \<Rightarrow> string option \<Rightarrow> world \<Rightarrow> (reply \<times> world) option" where
  "pay_endpoint env u to amount memo w =
     (if \<not> 0 < amount then Some (Rejected, w)
      else (case pay env u to amount memo w of
              None \<Rightarrow> None
            | Some (r, w1) \<Rightarrow> Some (Handled r, w1)))"

definition set_status :: "string \<Rightarrow> pstatus \<Rightarrow> world \<Rightarrow> world" where
  "set_status payment_id st w =
     w\<lparr>wallet_pending_payments :=
         map (\<lambda>p. if pp_id p = payment_id then p\<lparr>pp_status := st\<rparr> else p)
           (wallet_pending_payments w)\<rparr>"

definition pending_rows :: "user \<Rightarrow> string \<Rightarrow> world \<Rightarrow> pending_payment list" where
  "pending_rows u payment_id w =
     filter (\<lambda>p. pp_id p = payment_id \<and> pp_user_id p = user_id u \<and> pp_status p = Pending)
       (wallet_pending_payments w)"

definition confirm_payment ::
  "env \<Rightarrow> user \<Rightarrow> string \<Rightarrow> world \<Rightarrow> ((error + result) \<times> world) option" where
  "confirm_payment env u payment_id w =
     (case pending_rows u payment_id w of
        [] \<Rightarrow> Some (Inl PaymentNotFound, w)
      | payment # rest \<Rightarrow>
          (if clock env 0 > pp_expires_at payment
           then Some (Inl PaymentExpired, set_status payment_id Expired w)
           else (case execute_payment env u (pp_to_address payment) (pp_amount payment)
                        (pp_memo payment) w of
                   None \<Rightarrow> None
                 | Some (Inl e, w1) \<Rightarrow> Some (Inl e, w1)
                 | Some (Inr r, w1) \<Rightarrow> Some (Inr r, set_status payment_id Confirmed w1))))"

definition escrow_call_data ::
  "env \<Rightarrow> string \<Rightarrow> string \<Rightarrow> string \<Rightarrow> string \<Rightarrow> real \<Rightarrow> error + string" where
  "escrow_call_data env escrow_contract usdc_contract order_id_bytes32 seller amount =
     (let amount_units = py_int (amount * 10 ^ USDC_DECIMALS) in
      bnd (build_approve_calldata env escrow_contract amount_units) (\<lambda>approve_data.
      bnd (build_deposit_calldata env order_id_bytes32 seller amount_units) (\<lambda>deposit_data.
      build_execute_batch_calldata env
        [\<lparr>bc_to = usdc_contract, bc_value = 0, bc_data = approve_data\<rparr>,
         \<lparr>bc_to = escrow_contract, bc_value = 0, bc_data = deposit_data\<rparr>])))"

definition escrow_deposit ::
  "env \<Rightarrow> user \<Rightarrow> string \<Rightarrow> string \<Rightarrow> string \<Rightarrow> string \<Rightarrow> real \<Rightarrow> world
     \<Rightarrow> ((error + result) \<times> world) option" where
  "escrow_deposit env u escrow_contract usdc_contract order_id_bytes32 seller amount w =
     (case get_sender u of
        Inl e \<Rightarrow> Some (Inl e, w)
      | Inr sender \<Rightarrow>
     (case get_balance env sender w of
        (Inl e, w1) \<Rightarrow> Some (Inl e, w1)
      | (Inr balance, w1) \<Rightarrow>
     (if balance < amount then Some (Inl (InsufficientBalance balance amount), w1) else
     (case escrow_call_data env escrow_contract usdc_contract order_id_bytes32 seller amount of
        Inl e \<Rightarrow> Some (Inl e, w1)
      | Inr call_data \<Rightarrow>
     (case submit_user_op env u call_data w1 of
        None \<Rightarrow> None
      | Some (Inl e, w2) \<Rightarrow> Some (Inl e, w2)
      | Some (Inr (user_op_hash, txh), w2) \<Rightarrow>
          Some (Inr (Completed txh user_op_hash),
                w2\<lparr>wallet_transactions := wallet_transactions w2 @
                      [transaction_row env u ''escrow_deposit'' amount sender escrow_contract
                         (Some (''order:'' @ order_id_bytes32 @ '' seller:'' @ seller)) txh
                         user_op_hash],
                    wallet_events := wallet_events w2 @
                      [\<lparr>ev_user_id = user_id u, ev_type = ''escrow_deposit'',
                        ev_data = [(''escrow_contract'', EStr escrow_contract),
                                   (''order_id_bytes32'', EStr order_id_bytes32),
                                   (''seller'', EStr seller), (''amount'', ENum amount),
                                   (''tx_hash'', EStr txh),
                                   (''user_op_hash'', EStr user_op_hash)]\<rparr>]\<rparr>))))))"

section \<open>The deposit scanner (chain/scanner.py)\<close>

definition add_user :: "(string \<rightharpoonup> string) \<Rightarrow> user \<Rightarrow> (string \<rightharpoonup> string)" where
  "add_user m row =
     (let m1 = m(map lower (wallet_address row) \<mapsto> user_id row) in
      case smart_account_address row of
        None \<Rightarrow> m1
      | Some sa \<Rightarrow> if sa = [] then m1 else m1(map lower sa \<mapsto> user_id row))"

definition get_user_addresses :: "world \<Rightarrow> (string \<rightharpoonup> string)" where
  "get_user_addresses w = foldl add_user Map.empty (wallet_users w)"

definition has_tx_hash :: "string \<Rightarrow> world \<Rightarrow> bool" where
  "has_tx_hash h w = (filter (\<lambda>r. tx_hash r = h) (wallet_transactions w) \<noteq> [])"

definition record_deposit :: "env \<Rightarrow> string \<Rightarrow> transfer_event \<Rightarrow> world \<Rightarrow> world" where
  "record_deposit env uid evt w =
     w\<lparr>wallet_transactions := wallet_transactions w @
         [\<lparr>tx_user_id = uid, tx_type = ''deposit'', tx_amount = te_value evt,
           tx_from_address = te_from evt, tx_to_address = te_to evt, tx_memo = None,
           tx_hash = te_tx_hash evt, tx_user_op_hash = None, tx_status = Some ''completed'',
           tx_created_at = store_now env\<rparr>],
       wallet_events := wallet_events w @
         [\<lparr>ev_user_id = uid, ev_type = ''deposit_received'',
           ev_data = [(''from'', EStr (te_from evt)), (''amount'', ENum (te_value evt)),
                      (''tx_hash'', EStr (te_tx_hash evt))]\<rparr>]\<rparr>"

text \<open>The \<open>for evt in events\<close> loop of \<open>scan_deposits\<close>.\<close>

fun ingest :: "env \<Rightarrow> (string \<rightharpoonup> string) \<Rightarrow> transfer_event list \<Rightarrow> world \<Rightarrow> world" where
  "ingest env user_map [] w = w"
| "ingest env user_map (evt # evts) w =
     (case user_map (map lower (te_to evt)) of
        None \<Rightarrow> ingest env user_map evts w
      | Some uid \<Rightarrow>
          (if has_tx_hash (te_tx_hash evt) w then ingest env user_map evts w
           else ingest env user_map evts (record_deposit env uid evt w)))"

text \<open>
  One tick. The module variable \<open>_last_scanned_block\<close> is the first component of the
  state. An exception of a chain read is caught and logged by the source: the tick then
  leaves the cursor and the store as they were.
\<close>

definition scan_deposits :: "env \<Rightarrow> int option \<times> world \<Rightarrow> int option \<times> world" where
  "scan_deposits env st =
     (case st of (last_scanned_block, w) \<Rightarrow>
      (case chain_block_number env of
         Inl e \<Rightarrow> (last_scanned_block, log_call BlockNumber w)
       | Inr latest \<Rightarrow>
           (case last_scanned_block of
              None \<Rightarrow> (Some latest, log_call BlockNumber w)
            | Some l \<Rightarrow>
                if latest \<le> l then (last_scanned_block, log_call BlockNumber w)
                else (let from_block = l + 1;
                          to_block = min latest (from_block + 2000);
                          w1 = log_call (GetLogs from_block to_block) (log_call BlockNumber w)
                      in case chain_transfer_events env from_block to_block of
                           Inl e \<Rightarrow> (last_scanned_block, w1)
                         | Inr events \<Rightarrow>
                             (Some to_block, ingest env (get_user_addresses w1) events w1)))))"

text \<open>
  Two notions used to state the behaviour of the loop. A reply leaves the receipt
  "not yet known" when it is a null result or an RPC error the loop swallows;
  \<open>polled n h w\<close> is \<open>w\<close> after \<open>n\<close> more receipt queries for \<open>h\<close>.
\<close>

fun not_yet_known :: "receipt option rpc \<Rightarrow> bool" where
  "not_yet_known (RpcResult None) = True"
| "not_yet_known (RpcError m) = (\<not> contains ''UserOp failed'' (''Bundler RPC error: '' @ m))"
| "not_yet_known r = False"

definition polled :: "nat \<Rightarrow> string \<Rightarrow> world \<Rightarrow> world" where
  "polled n h w = w\<lparr>calls := calls w @ replicate n (ReceiptPoll h)\<rparr>"

definition failure_reason :: "receipt \<Rightarrow> string" where
  "failure_reason rc = (case rc_reason rc of None \<Rightarrow> ''unknown'' | Some r \<Rightarrow> r)"

text \<open>\<open>same_tables w w'\<close>: the payment tables of \<open>w'\<close> are those of \<open>w\<close>, row for row.\<close>

definition same_tables :: "world \<Rightarrow> world \<Rightarrow> bool" where
  "same_tables w w' =
     (wallet_transactions w' = wallet_transactions w
      \<and> wallet_pending_payments w' = wallet_pending_payments w
      \<and> wallet_events w' = wallet_events w)"

text \<open>The submissions among a list of outbound calls.\<close>

fun is_send :: "call \<Rightarrow> bool" where
  "is_send (BundlerRpc method op) = (method = ''eth_sendUserOperation'')"
| "is_send c = False"

definition sends :: "call list \<Rightarrow> call list" where
  "sends cs = filter is_send cs"

text \<open>The rows of \<open>wallet_transactions\<close> that carry a given chain transaction id.\<close>

definition rows_with_hash :: "string \<Rightarrow> world \<Rightarrow> transaction list" where
  "rows_with_hash h w = filter (\<lambda>r. tx_hash r = h) (wallet_transactions w)"

section \<open>A concrete environment for the examples\<close>

text \<open>
  The theorems below hold for every environment. Their instances are evaluated in this
  one: a stand-in hash function and encoder, an account with 100 USDC whose smart
  account is not deployed yet, and a relay that sponsors everything. The answers to the
  receipt queries are the parameter.
\<close>

definition demo_keccak :: "bytes \<Rightarrow> bytes" where
  "demo_keccak bs = replicate 32 0"

fun demo_encode :: "contract_call \<Rightarrow> error + bytes" where
  "demo_encode (Transfer to amount) = (if amount < 0 then Inl EncodingError else Inr [169, 5, 156, 187])"
| "demo_encode (Approve spender amount) = (if amount < 0 then Inl EncodingError else Inr [9, 94, 167, 179])"
| "demo_encode (Deposit order_id seller amount) = (if amount < 0 then Inl EncodingError else Inr [142, 39, 215, 25])"
| "demo_encode (Execute dest val func) = Inr [182, 29, 39, 246]"
| "demo_encode (ExecuteBatch dests vals funcs) = Inr [71, 225, 218, 42]"
| "demo_encode (CreateAccount owner salt) = Inr [95, 191, 185, 207]"

definition demo_paymaster :: pydict where
  "demo_paymaster = [''paymaster'' \<mapsto> JStr ''0x2222222222222222222222222222222222222222'',
                     ''paymasterData'' \<mapsto> JStr ''0x01'',
                     ''paymasterVerificationGasLimit'' \<mapsto> JStr ''0x7530'',
                     ''paymasterPostOpGasLimit'' \<mapsto> JStr ''0x0'']"

definition demo_gas :: pydict where
  "demo_gas = [''preVerificationGas'' \<mapsto> JStr ''0xc350'',
               ''callGasLimit'' \<mapsto> JStr ''0x5208'',
               ''verificationGasLimit'' \<mapsto> JStr ''0x186a0'']"

definition demo_env :: "(nat \<Rightarrow> receipt option rpc) \<Rightarrow> env" where
  "demo_env answers =
     \<lparr>usdc_contract_address = ''0x036cbd53842c5426634e7929541ec2318f3dcf7e'',
      entrypoint_address = ''0x0000000071727de22e5e9d8baf0edac6f37da032'',
      chain_id = 84532,
      simple_account_factory = ''0x91e60e0613810449d098b0b5ec8b51a0fe8c8985'',
      bundler_rpc_url = ''https://bundler.example/rpc'',
      lib_keccak = demo_keccak,
      lib_encode = demo_encode,
      clock = (\<lambda>k. 1700000000000000),
      store_now = 1700000000000000,
      store_new_id = ''pp-1'',
      chain_balance = (\<lambda>a. Inr 100000000),
      chain_nonce = (\<lambda>a. Inr 0),
      chain_block_number = Inr 1000,
      chain_transfer_events = (\<lambda>from_block to_block. Inr []),
      rpc_pm_stub = (\<lambda>op. RpcResult demo_paymaster),
      rpc_estimate_gas = (\<lambda>op. RpcResult demo_gas),
      rpc_gas_price = Inr (JStr ''0x3b9aca00''),
      rpc_pm_data = (\<lambda>op. RpcResult demo_paymaster),
      privy_sign = (\<lambda>wallet_id message. Inr ''0x5161''),
      rpc_send = (\<lambda>op. RpcResult ''0xabc''),
      rpc_receipt = (\<lambda>h. answers)\<rparr>"

definition demo_user :: user where
  "demo_user =
     \<lparr>user_id = ''u1'',
      wallet_address = ''0x1111111111111111111111111111111111111111'',
      smart_account_address = Some ''0x3333333333333333333333333333333333333333'',
      smart_account_deployed = False,
      privy_wallet_id = ''w1'',
      per_transaction_limit = None,
      daily_limit = None,
      require_confirmation_above = None\<rparr>"

definition legacy_user :: user where
  "legacy_user = demo_user\<lparr>user_id := ''u0'', smart_account_address := None\<rparr>"

definition demo_world :: world where
  "demo_world =
     \<lparr>wallet_users = [demo_user], wallet_transactions = [], wallet_pending_payments = [],
      wallet_events = [], calls = []\<rparr>"

definition demo_receipt :: "bool \<Rightarrow> receipt" where
  "demo_receipt ok =
     \<lparr>rc_success = ok, rc_transaction_hash = Some ''0xfeed'',
      rc_reason = (if ok then None else Some ''AA23 reverted'')\<rparr>"

text \<open>Three relays: one that lands the operation at the third query, one that reports a
  failed operation at the third query, one that never knows.\<close>

definition lands :: "nat \<Rightarrow> receipt option rpc" where
  "lands i = (if i < 2 then RpcResult None else RpcResult (Some (demo_receipt True)))"

definition reverts :: "nat \<Rightarrow> receipt option rpc" where
  "reverts i = (if i < 2 then RpcResult None else RpcResult (Some (demo_receipt False)))"

definition silent :: "nat \<Rightarrow> receipt option rpc" where
  "silent i = RpcResult None"

text \<open>The operation this environment builds for a call payload, and what it is after
  the three sponsorship steps.\<close>

definition demo_built :: "string \<Rightarrow> pydict" where
  "demo_built call_data =
     [''sender'' \<mapsto> JStr ''0x3333333333333333333333333333333333333333'',
      ''nonce'' \<mapsto> JStr ''0x0'',
      ''factory'' \<mapsto> JStr ''0x91e60e0613810449d098b0b5ec8b51a0fe8c8985'',
      ''factoryData'' \<mapsto> JStr ''0x5fbfb9cf'',
      ''callData'' \<mapsto> JStr call_data,
      ''callGasLimit'' \<mapsto> JStr ''0x0'',
      ''verificationGasLimit'' \<mapsto> JStr ''0x0'',
      ''preVerificationGas'' \<mapsto> JStr ''0x0'',
      ''maxFeePerGas'' \<mapsto> JStr ''0x0'',
      ''maxPriorityFeePerGas'' \<mapsto> JStr ''0x0'',
      ''signature'' \<mapsto> JStr dummy_signature,
      ''paymaster'' \<mapsto> JNone,
      ''paymasterData'' \<mapsto> JNone,
      ''paymasterVerificationGasLimit'' \<mapsto> JNone,
      ''paymasterPostOpGasLimit'' \<mapsto> JNone]"

definition demo_sponsored :: "string \<Rightarrow> pydict" where
  "demo_sponsored call_data =
     merge_keys paymaster_keys demo_paymaster
       ((merge_keys gas_keys demo_gas
           (merge_keys paymaster_keys demo_paymaster (demo_built call_data)))
        (''maxFeePerGas'' \<mapsto> JStr ''0x3b9aca00'',
         ''maxPriorityFeePerGas'' \<mapsto> JStr ''0x3b9aca00''))"

text \<open>An operation in wire form and the typed operation it carries.\<close>

definition example_op :: pydict where
  "example_op =
     [''sender'' \<mapsto> JStr ''0x3333333333333333333333333333333333333333'',
      ''nonce'' \<mapsto> JStr ''0x5'',
      ''factory'' \<mapsto> JStr ''0x91e60e0613810449d098b0b5ec8b51a0fe8c8985'',
      ''factoryData'' \<mapsto> JStr ''0x5fbfb9cf'',
      ''callData'' \<mapsto> JStr ''0xb61d27f6'',
      ''callGasLimit'' \<mapsto> JStr ''0x10'',
      ''verificationGasLimit'' \<mapsto> JStr ''0x20'',
      ''preVerificationGas'' \<mapsto> JInt 7,
      ''maxFeePerGas'' \<mapsto> JStr ''0x3'',
      ''maxPriorityFeePerGas'' \<mapsto> JStr ''0x3'',
      ''signature'' \<mapsto> JStr ''0x01'',
      ''paymaster'' \<mapsto> JStr ''0x2222222222222222222222222222222222222222'',
      ''paymasterData'' \<mapsto> JStr ''0xff'',
      ''paymasterVerificationGasLimit'' \<mapsto> JStr ''0x1'']"

definition example_operation :: operation where
  "example_operation =
     \<lparr>op_sender = [51, 51, 51, 51, 51, 51, 51, 51, 51, 51, 51, 51, 51, 51, 51, 51, 51, 51, 51, 51],
      op_nonce = 5,
      op_factory = Some [145, 230, 14, 6, 19, 129, 4, 73, 208, 152, 176, 181, 236, 139, 81, 160,
                         254, 140, 137, 133],
      op_factory_data = [95, 191, 185, 207],
      op_call_data = [182, 29, 39, 246],
      op_verification_gas_limit = 32,
      op_call_gas_limit = 16,
      op_pre_verification_gas = 7,
      op_max_priority_fee_per_gas = 3,
      op_max_fee_per_gas = 3,
      op_paymaster = Some [34, 34, 34, 34, 34, 34, 34, 34, 34, 34, 34, 34, 34, 34, 34, 34, 34,
                           34, 34, 34],
      op_paymaster_verification_gas_limit = 1,
      op_paymaster_post_op_gas_limit = 0,
      op_paymaster_data = [255]\<rparr>"

definition example_entry_point :: bytes where
  "example_entry_point = [0, 0, 0, 0, 113, 114, 125, 226, 46, 94, 157, 139, 175, 14, 218, 198,
                          243, 125, 160, 50]"

section \<open>Supporting lemmas\<close>

lemma length_be_bytes: "length (be_bytes k n) = k"
  by (induction k arbitrary: n) auto

lemma to_bytes16_nat: "n < 2 ^ 128 \<Longrightarrow> to_bytes16 (int n) = Inr (be_bytes 16 n)"
proof -
  assume "n < 2 ^ 128"
  then have "int n < 2 ^ 128" by (metis of_nat_less_iff of_nat_numeral of_nat_power)
  then show ?thesis by (simp add: to_bytes16_def)
qed

lemma abi_uint256_nat: "n < 2 ^ 256 \<Longrightarrow> abi_uint256 (int n) = Inr (be_bytes 32 n)"
proof -
  assume "n < 2 ^ 256"
  then have "int n < 2 ^ 256" by (metis of_nat_less_iff of_nat_numeral of_nat_power)
  then show ?thesis by (simp add: abi_uint256_def)
qed

lemma abi_bytes32_exact: "length bs = 32 \<Longrightarrow> abi_bytes32 bs = Inr bs"
  by (simp add: abi_bytes32_def)

lemma pack_halves_nat:
  "a < 2 ^ 128 \<Longrightarrow> b < 2 ^ 128 \<Longrightarrow> pack_halves (int a) (int b) = Inr (two_halves a b)"
  by (simp add: pack_halves_def bnd_def to_bytes16_nat two_halves_def)

lemma length_two_halves: "length (two_halves a b) = 32"
  by (simp add: two_halves_def length_be_bytes)

lemma op_init_code_wire: "wire_form keccak op t \<Longrightarrow> op_init_code op = Inr (init_payload t)"
  by (cases "op_factory t")
     (auto simp: wire_form_def op_init_code_def init_payload_def has_factory_def bnd_def
        getitem_def dict_get_def split: option.splits)

lemma op_paymaster_wire:
  "wire_form keccak op t \<Longrightarrow> op_paymaster_and_data op = Inr (paymaster_payload t)"
  by (cases "op_paymaster t")
     (auto simp: wire_form_def op_paymaster_and_data_def paymaster_payload_def bnd_def
        getitem_def dict_get_def reads_as_def to_bytes16_nat split: option.splits)

lemma hash_refines:
  assumes k: "\<forall>bs. length (keccak bs) = 32"
    and w: "wire_form keccak op t"
    and ep: "abi_address keccak (JStr entrypoint) = Inr (replicate 12 0 @ entry_point)"
    and c: "cid < 2 ^ 256"
  shows "compute_user_op_hash keccak op entrypoint (int cid)
           = Inr (hash_spec keccak t entry_point cid)
         \<and> length (hash_spec keccak t entry_point cid) = 32"
proof -
  from w obtain s b where s: "op ''sender'' = Some (JStr s)" "fromhex (remove_0x s) = Inr b"
      "abi_address keccak (JStr s) = Inr (replicate 12 0 @ op_sender t)"
    by (auto simp: wire_form_def split: option.splits jval.splits sum.splits)
  from w obtain nv where n: "op ''nonce'' = Some nv" "hex_to_int nv = Inr (int (op_nonce t))"
      "op_nonce t < 2 ^ 256"
    by (auto simp: wire_form_def split: option.splits)
  from w obtain cv where cd: "op ''callData'' = Some cv" "hex_to_bytes cv = Inr (op_call_data t)"
    by (auto simp: wire_form_def split: option.splits)
  from w have g: "reads_as op ''verificationGasLimit'' (op_verification_gas_limit t) (2 ^ 128)"
      "reads_as op ''callGasLimit'' (op_call_gas_limit t) (2 ^ 128)"
      "reads_as op ''preVerificationGas'' (op_pre_verification_gas t) (2 ^ 256)"
      "reads_as op ''maxPriorityFeePerGas'' (op_max_priority_fee_per_gas t) (2 ^ 128)"
      "reads_as op ''maxFeePerGas'' (op_max_fee_per_gas t) (2 ^ 128)"
    by (simp_all add: wire_form_def)
  have "compute_user_op_hash keccak op entrypoint (int cid)
           = Inr (hash_spec keccak t entry_point cid)"
    using k s n cd g ep c
    by (simp add: compute_user_op_hash_def bnd_def getitem_def reads_as_def
        op_init_code_wire [OF w] op_paymaster_wire [OF w] pack_halves_nat abi_uint256_nat
        abi_bytes32_exact length_two_halves hash_spec_def address_word_def uint_word_def)
  moreover have "length (hash_spec keccak t entry_point cid) = 32"
    using k by (simp add: hash_spec_def Let_def)
  ultimately show ?thesis by simp
qed

lemma polled_0: "polled 0 h w = w"
  by (simp add: polled_def)

lemma polled_log: "polled n h (log_call (ReceiptPoll h) w) = polled (Suc n) h w"
  by (simp add: polled_def log_call_def replicate_app_Cons_same)

lemma log_polled: "log_call (ReceiptPoll h) (polled n h w) = polled (Suc n) h w"
  by (simp add: polled_def log_call_def replicate_append_same)

lemma wait_loop_step:
  "elapsed < timeout \<Longrightarrow> not_yet_known (rpc_receipt env h polls) \<Longrightarrow>
   wait_loop env h timeout interval elapsed polls w
     = wait_loop env h timeout interval (elapsed + interval) (Suc polls)
         (log_call (ReceiptPoll h) w)"
  by (subst wait_loop.simps) (auto split: rpc.splits option.splits elim: not_yet_known.elims)

lemma wait_loop_failed:
  "elapsed < timeout \<Longrightarrow> rpc_receipt env h polls = RpcResult (Some rc) \<Longrightarrow> \<not> rc_success rc \<Longrightarrow>
   wait_loop env h timeout interval elapsed polls w
     = Some (Inl (UserOpFailed (failure_reason rc)), log_call (ReceiptPoll h) w)"
  by (subst wait_loop.simps) (simp add: failure_reason_def)

lemma wait_loop_success:
  "elapsed < timeout \<Longrightarrow> rpc_receipt env h polls = RpcResult (Some rc) \<Longrightarrow> rc_success rc \<Longrightarrow>
   wait_loop env h timeout interval elapsed polls w
     = Some (Inr rc, log_call (ReceiptPoll h) w)"
  by (subst wait_loop.simps) simp

lemma wait_loop_expired:
  "\<not> elapsed < timeout \<Longrightarrow>
   wait_loop env h timeout interval elapsed polls w = Some (Inl (ReceiptTimeout h timeout), w)"
  by (subst wait_loop.simps) simp

lemma wait_loop_prefix:
  "(\<forall>i<j. not_yet_known (rpc_receipt env h (polls + i))) \<Longrightarrow>
   (\<forall>i<j. elapsed + real i * interval < timeout) \<Longrightarrow>
   wait_loop env h timeout interval elapsed polls w
     = wait_loop env h timeout interval (elapsed + real j * interval) (polls + j) (polled j h w)"
proof (induction j arbitrary: elapsed polls w)
  case 0
  then show ?case by (simp add: polled_0)
next
  case (Suc j)
  have e: "elapsed < timeout" using Suc.prems(2) by force
  have q: "not_yet_known (rpc_receipt env h polls)" using Suc.prems(1) by force
  have a: "\<forall>i<j. not_yet_known (rpc_receipt env h (Suc polls + i))"
    using Suc.prems(1) by (metis Suc_less_eq add_Suc_shift)
  have b: "\<forall>i<j. (elapsed + interval) + real i * interval < timeout"
  proof (intro allI impI)
    fix i assume "i < j"
    then have "Suc i < Suc j" by simp
    then have "elapsed + real (Suc i) * interval < timeout" using Suc.prems(2) by blast
    then show "(elapsed + interval) + real i * interval < timeout" by (simp add: algebra_simps)
  qed
  show ?case
    using Suc.IH [OF a b, of "log_call (ReceiptPoll h) w"] wait_loop_step [OF e q]
    by (simp add: polled_log algebra_simps)
qed

lemma wait_loop_timeout:
  assumes "0 < interval"
  shows "(\<forall>i. not_yet_known (rpc_receipt env h (polls + i))) \<Longrightarrow>
         n = nat \<lceil>(timeout - elapsed) / interval\<rceil> \<Longrightarrow>
         wait_loop env h timeout interval elapsed polls w
           = Some (Inl (ReceiptTimeout h timeout), polled n h w)"
proof (induction n arbitrary: elapsed polls w)
  case 0
  then have "(timeout - elapsed) / interval \<le> 0" by simp
  then have "\<not> elapsed < timeout" using assms
    by (simp add: divide_le_0_iff)
  then show ?case by (simp add: wait_loop_expired polled_0)
next
  case (Suc n)
  then have "0 < (timeout - elapsed) / interval" by linarith
  then have e: "elapsed < timeout" using assms by (simp add: zero_less_divide_iff)
  have q: "not_yet_known (rpc_receipt env h polls)" using Suc.prems(1) [rule_format, of 0] by simp
  have a: "\<forall>i. not_yet_known (rpc_receipt env h (Suc polls + i))"
    using Suc.prems(1) by (metis add_Suc_shift)
  have "(timeout - (elapsed + interval)) / interval = (timeout - elapsed) / interval - 1"
    using assms by (simp add: field_simps)
  then have b: "n = nat \<lceil>(timeout - (elapsed + interval)) / interval\<rceil>"
    using Suc.prems(2) by simp
  show ?case
    using Suc.IH [OF a b, of "log_call (ReceiptPoll h) w"] wait_loop_step [OF e q]
    by (simp add: polled_log)
qed

lemma wait_loop_total:
  assumes "0 < interval"
  shows "n = nat \<lceil>(timeout - elapsed) / interval\<rceil> \<Longrightarrow>
         \<exists>res k. wait_loop env h timeout interval elapsed polls w = Some (res, polled k h w)
           \<and> (\<forall>rc. res = Inr rc \<longrightarrow>
                 (\<exists>i. rpc_receipt env h i = RpcResult (Some rc) \<and> rc_success rc))"
proof (induction n arbitrary: elapsed polls w)
  case 0
  then have "(timeout - elapsed) / interval \<le> 0" by simp
  then have "\<not> elapsed < timeout" using assms
    by (simp add: divide_le_0_iff)
  then have "wait_loop env h timeout interval elapsed polls w
               = Some (Inl (ReceiptTimeout h timeout), polled 0 h w)"
    by (simp add: wait_loop_expired polled_0)
  then show ?case by blast
next
  case (Suc n)
  then have "0 < (timeout - elapsed) / interval" by linarith
  then have e: "elapsed < timeout" using assms by (simp add: zero_less_divide_iff)
  have "(timeout - (elapsed + interval)) / interval = (timeout - elapsed) / interval - 1"
    using assms by (simp add: field_simps)
  then have b: "n = nat \<lceil>(timeout - (elapsed + interval)) / interval\<rceil>"
    using Suc.prems by simp
  from Suc.IH [OF b, of "Suc polls" "log_call (ReceiptPoll h) w"]
  obtain res k where ih:
    "wait_loop env h timeout interval (elapsed + interval) (Suc polls)
       (log_call (ReceiptPoll h) w) = Some (res, polled (Suc k) h w)"
    "\<forall>rc. res = Inr rc \<longrightarrow> (\<exists>i. rpc_receipt env h i = RpcResult (Some rc) \<and> rc_success rc)"
    by (auto simp: polled_log)
  show ?case
  proof (cases "not_yet_known (rpc_receipt env h polls)")
    case True
    then show ?thesis using wait_loop_step [OF e True] ih by metis
  next
    case False
    show ?thesis
    proof (cases "rpc_receipt env h polls")
      case (RpcResult r)
      with False obtain rc where rc: "rpc_receipt env h polls = RpcResult (Some rc)"
        by (cases r) auto
      show ?thesis
      proof (cases "rc_success rc")
        case True
        have "wait_loop env h timeout interval elapsed polls w = Some (Inr rc, polled 1 h w)"
          using wait_loop_success [OF e rc True] polled_log [of 0 h w] by (simp add: polled_0)
        then show ?thesis using rc True by blast
      next
        case f: False
        have "wait_loop env h timeout interval elapsed polls w
                = Some (Inl (UserOpFailed (failure_reason rc)), polled 1 h w)"
          using wait_loop_failed [OF e rc f] polled_log [of 0 h w] by (simp add: polled_0)
        then show ?thesis by blast
      qed
    next
      case (RpcError m)
      with False have c: "contains ''UserOp failed'' (''Bundler RPC error: '' @ m)" by simp
      have "wait_loop env h timeout interval elapsed polls w
              = Some (Inl (BundlerRpcError m), polled 1 h w)"
        using e RpcError c polled_log [of 0 h w]
        by (subst wait_loop.simps) (simp add: polled_0)
      then show ?thesis by blast
    next
      case (HttpFailure m)
      have "wait_loop env h timeout interval elapsed polls w
              = Some (Inl (ExternalFailure m), polled 1 h w)"
        using e HttpFailure polled_log [of 0 h w]
        by (subst wait_loop.simps) (simp add: polled_0)
      then show ?thesis by blast
    qed
  qed
qed

lemma same_tables_refl: "same_tables w w"
  by (simp add: same_tables_def)

lemma same_tables_trans: "same_tables a b \<Longrightarrow> same_tables b c \<Longrightarrow> same_tables a c"
  by (simp add: same_tables_def)

lemma same_tables_log: "same_tables w (log_call c w)"
  by (simp add: same_tables_def log_call_def)

lemma same_tables_polled: "same_tables w (polled n h w)"
  by (simp add: same_tables_def polled_def)

lemma same_tables_deployed: "same_tables w (mark_deployed u w)"
  by (simp add: same_tables_def mark_deployed_def)

lemma get_nonce_frame: "get_nonce env s w = (r, w1) \<Longrightarrow> same_tables w w1"
  by (auto simp: get_nonce_def same_tables_refl same_tables_log split: sum.splits)

lemma build_frame:
  "build_user_operation env s cd d own w = (r, w1) \<Longrightarrow> same_tables w w1"
  by (auto simp: build_user_operation_def split: prod.splits sum.splits dest: get_nonce_frame)

lemma sponsor_frame: "sponsor_user_op env op w = (r, w1) \<Longrightarrow> same_tables w w1"
  by (auto simp: sponsor_user_op_def Let_def same_tables_def log_call_def split: sum.splits)

lemma send_frame: "send_user_op env op w = (r, w1) \<Longrightarrow> same_tables w w1"
  by (auto simp: send_user_op_def same_tables_log)

lemma wait_for_receipt_default:
  "\<exists>res k. wait_for_receipt env h 60 2 w = Some (res, polled k h w)
     \<and> (\<forall>rc. res = Inr rc \<longrightarrow> (\<exists>i. rpc_receipt env h i = RpcResult (Some rc) \<and> rc_success rc))"
  unfolding wait_for_receipt_def
  by (rule wait_loop_total [where n = "nat \<lceil>(60 - 0) / (2::real)\<rceil>"]) simp_all

lemma submit_user_op_total:
  "\<exists>r w'. submit_user_op env u cd w = Some (r, w') \<and> same_tables w w'
     \<and> (\<forall>uoh txh. r = Inr (uoh, txh) \<longrightarrow>
           (\<exists>i rc. rpc_receipt env uoh i = RpcResult (Some rc) \<and> rc_success rc))"
proof (cases "get_sender u")
  case (Inl e)
  then show ?thesis by (simp add: submit_user_op_def same_tables_refl)
next
  case (Inr sender)
  obtain r1 w1 where b: "build_user_operation env sender cd (smart_account_deployed u)
      (wallet_address u) w = (r1, w1)" by force
  have f1: "same_tables w w1" using build_frame [OF b] .
  show ?thesis
  proof (cases r1)
    case (Inl e)
    then show ?thesis using Inr b f1 by (simp add: submit_user_op_def)
  next
    case op: (Inr op)
    show ?thesis
    proof (cases "bundler_rpc_url env = []")
      case True
      then show ?thesis using Inr b op f1 by (simp add: submit_user_op_def)
    next
      case url: False
      obtain r2 w2 where s: "sponsor_user_op env op w1 = (r2, w2)" by force
      have f2: "same_tables w w2" using sponsor_frame [OF s] f1 same_tables_trans by blast
      show ?thesis
      proof (cases r2)
        case (Inl e)
        then show ?thesis using Inr b op url s f2 by (simp add: submit_user_op_def)
      next
        case op2: (Inr op2)
        show ?thesis
        proof (cases "compute_user_op_hash (lib_keccak env) op2 (entrypoint_address env)
                        (chain_id env)")
          case (Inl e)
          then show ?thesis using Inr b op url s op2 f2 by (simp add: submit_user_op_def)
        next
          case hash: (Inr op_hash)
          define hx where "hx = ''0x'' @ remove_0x (hex_of_bytes op_hash)"
          define w3 where "w3 = log_call (Sign (privy_wallet_id u) hx) w2"
          have f3: "same_tables w w3"
            using f2 same_tables_log same_tables_trans w3_def by blast
          show ?thesis
          proof (cases "privy_sign env (privy_wallet_id u) hx")
            case (Inl e)
            then show ?thesis using Inr b op url s op2 hash f3
              by (simp add: submit_user_op_def Let_def hx_def w3_def)
          next
            case sig: (Inr signature)
            obtain r4 w4 where sd: "send_user_op env (op2(''signature'' \<mapsto> JStr signature)) w3
                = (r4, w4)" by force
            have f4: "same_tables w w4" using send_frame [OF sd] f3 same_tables_trans by blast
            show ?thesis
            proof (cases r4)
              case (Inl e)
              then show ?thesis using Inr b op url s op2 hash sig sd f4
                by (simp add: submit_user_op_def Let_def hx_def w3_def)
            next
              case uoh: (Inr user_op_hash)
              from wait_for_receipt_default [of env user_op_hash w4]
              obtain res k where wt: "wait_for_receipt env user_op_hash 60 2 w4
                    = Some (res, polled k user_op_hash w4)"
                and ok: "\<forall>rc. res = Inr rc \<longrightarrow>
                    (\<exists>i. rpc_receipt env user_op_hash i = RpcResult (Some rc) \<and> rc_success rc)"
                by blast
              have f5: "same_tables w (polled k user_op_hash w4)"
                using f4 same_tables_polled same_tables_trans by blast
              show ?thesis
              proof (cases res)
                case (Inl e)
                then show ?thesis using Inr b op url s op2 hash sig sd uoh wt f5
                  by (simp add: submit_user_op_def Let_def hx_def w3_def)
              next
                case rc: (Inr receipt)
                have f6: "same_tables w (mark_deployed u (polled k user_op_hash w4))"
                  using f5 same_tables_deployed same_tables_trans by blast
                show ?thesis using Inr b op url s op2 hash sig sd uoh wt rc ok f5 f6
                  by (auto simp: submit_user_op_def Let_def hx_def w3_def)
              qed
            qed
          qed
        qed
      qed
    qed
  qed
qed

lemma execute_payment_total:
  "\<exists>r w'. execute_payment env u to_address amount memo w = Some (r, w')
     \<and> wallet_pending_payments w' = wallet_pending_payments w
     \<and> (case r of
          Inl e \<Rightarrow> wallet_transactions w' = wallet_transactions w
                   \<and> wallet_events w' = wallet_events w
        | Inr res \<Rightarrow>
            (\<exists>uoh txh sender. res = Completed txh uoh \<and> get_sender u = Inr sender
               \<and> wallet_transactions w' = wallet_transactions w @
                    [transaction_row env u ''payment'' amount sender to_address memo txh uoh]
               \<and> (\<exists>i rc. rpc_receipt env uoh i = RpcResult (Some rc) \<and> rc_success rc)))"
proof (cases "get_sender u")
  case (Inl e)
  then show ?thesis by (simp add: execute_payment_def)
next
  case (Inr sender)
  show ?thesis
  proof (cases "bnd (build_transfer_calldata env to_address amount) (\<lambda>inner_calldata.
           build_execute_calldata env (usdc_contract_address env) 0 inner_calldata)")
    case (Inl e)
    then show ?thesis using Inr by (simp add: execute_payment_def)
  next
    case cd: (Inr call_data)
    from submit_user_op_total [of env u call_data w]
    obtain r w1 where sub: "submit_user_op env u call_data w = Some (r, w1)"
      and f: "same_tables w w1"
      and ok: "\<forall>uoh txh. r = Inr (uoh, txh) \<longrightarrow>
           (\<exists>i rc. rpc_receipt env uoh i = RpcResult (Some rc) \<and> rc_success rc)"
      by blast
    show ?thesis
    proof (cases r)
      case (Inl e)
      then show ?thesis using Inr cd sub f by (simp add: execute_payment_def same_tables_def)
    next
      case p: (Inr pair)
      obtain uoh txh where pair: "pair = (uoh, txh)" by force
      then show ?thesis using Inr cd sub f ok p
        by (simp add: execute_payment_def same_tables_def)
    qed
  qed
qed

subsection \<open>Round trip of the hexadecimal rendering\<close>

lemma below_16: "k < 16 \<Longrightarrow>
  k = 0 \<or> k = 1 \<or> k = 2 \<or> k = 3 \<or> k = 4 \<or> k = 5 \<or> k = 6 \<or> k = 7 \<or> k = 8 \<or> k = 9
  \<or> k = 10 \<or> k = 11 \<or> k = 12 \<or> k = 13 \<or> k = 14 \<or> k = (15::nat)"
  by arith

lemma hexval_hexdigit: "k < 16 \<Longrightarrow> hexval (hexdigit k) = Some k"
  by (drule below_16) (elim disjE; simp add: hexdigit_def hexval_def)

lemma hexdigit_not_space: "k < 16 \<Longrightarrow> \<not> is_space (hexdigit k)"
  by (drule below_16) (elim disjE; simp add: hexdigit_def is_space_def)

lemma hexdigit_not_x: "k < 16 \<Longrightarrow> hexdigit k \<noteq> CHR ''x''"
  by (drule below_16) (elim disjE; simp add: hexdigit_def)

lemma byte_nibbles: "unat (b::byte) div 16 < 16" "unat b mod 16 < 16"
proof -
  have "unat b < 2 ^ LENGTH(8)" by (rule unsigned_less)
  then have "unat b < 256" by simp
  then show "unat b div 16 < 16" by simp
  show "unat b mod 16 < 16" by simp
qed

lemma byte_of_nibbles: "(of_nat (unat (b::byte) div 16 * 16 + unat b mod 16) :: byte) = b"
  by simp

lemma fromhex_hex_of_bytes: "fromhex (hex_of_bytes bs) = Inr bs"
proof (induction bs)
  case Nil
  then show ?case by (simp add: hex_of_bytes_def)
next
  case (Cons b bs)
  then show ?case
    using byte_nibbles [of b] byte_of_nibbles [of b]
    by (simp add: hex_of_bytes_def hex_of_byte_def hexval_hexdigit hexdigit_not_space)
qed

lemma remove_0x_without_x: "CHR ''x'' \<notin> set s \<Longrightarrow> remove_0x s = s"
  by (induction s rule: remove_0x.induct) auto

lemma no_x_in_hex_of_byte: "CHR ''x'' \<notin> set (hex_of_byte b)"
  using hexdigit_not_x [OF byte_nibbles(1) [of b]] hexdigit_not_x [OF byte_nibbles(2) [of b]]
  by (auto simp: hex_of_byte_def)

lemma no_x_in_hex: "CHR ''x'' \<notin> set (hex_of_bytes bs)"
  by (induction bs) (simp_all add: hex_of_bytes_def no_x_in_hex_of_byte)

lemma remove_0x_hex: "remove_0x (''0x'' @ hex_of_bytes bs) = hex_of_bytes bs"
  by (simp add: remove_0x_without_x no_x_in_hex)

lemma data_bytes_hex: "data_bytes (''0x'' @ hex_of_bytes bs) = Inr bs"
  using remove_0x_hex [of bs] by (simp add: data_bytes_def fromhex_hex_of_bytes)

lemma hex_to_bytes_hex: "hex_to_bytes (JStr (''0x'' @ hex_of_bytes bs)) = Inr bs"
proof (cases "hex_of_bytes bs = []")
  case True
  with fromhex_hex_of_bytes [of bs] have "bs = []" by simp
  then show ?thesis using True by simp
next
  case False
  have "fromhex (remove_0x (''0x'' @ hex_of_bytes bs)) = Inr bs"
    by (simp only: remove_0x_hex fromhex_hex_of_bytes)
  then show ?thesis using False by simp
qed

subsection \<open>The example environment, evaluated\<close>

lemma hex_of_zero_bytes: "hex_of_bytes (replicate n 0) = replicate (2 * n) CHR ''0''"
  by (induction n) (simp_all add: hex_of_bytes_def hex_of_byte_def hexdigit_def)

lemma demo_checksum:
  assumes "is_hex_address s"
  shows "to_checksum_address demo_keccak s = Inr (''0x'' @ map lower (remove_0x_prefix s))"
proof -
  define norm where "norm = map lower (remove_0x_prefix s)"
  have len: "length norm = 40" using assms by (simp add: norm_def is_hex_address_def)
  have "map (\<lambda>i. if 7 < the (hexval (hex_of_bytes (demo_keccak (ascii norm)) ! i))
                  then upper (norm ! i) else norm ! i) [0..<40]
        = map (\<lambda>i. norm ! i) [0..<40]"
    by (rule map_cong) (simp_all add: demo_keccak_def hex_of_zero_bytes hexval_def)
  also have "\<dots> = norm" using len map_nth [of norm] by simp
  finally have e: "map (\<lambda>i. if 7 < the (hexval (hex_of_bytes (demo_keccak (ascii norm)) ! i))
                  then upper (norm ! i) else norm ! i) [0..<40] = norm" .
  show ?thesis using assms e [unfolded norm_def]
    by (simp add: to_checksum_address_def Let_def)
qed

lemma demo_addresses:
  "to_checksum_address demo_keccak ''0x036cbd53842c5426634e7929541ec2318f3dcf7e''
     = Inr ''0x036cbd53842c5426634e7929541ec2318f3dcf7e''"
  "to_checksum_address demo_keccak ''0x0000000071727de22e5e9d8baf0edac6f37da032''
     = Inr ''0x0000000071727de22e5e9d8baf0edac6f37da032''"
  "to_checksum_address demo_keccak ''0x91e60e0613810449d098b0b5ec8b51a0fe8c8985''
     = Inr ''0x91e60e0613810449d098b0b5ec8b51a0fe8c8985''"
  "to_checksum_address demo_keccak ''0x1111111111111111111111111111111111111111''
     = Inr ''0x1111111111111111111111111111111111111111''"
  "to_checksum_address demo_keccak ''0x3333333333333333333333333333333333333333''
     = Inr ''0x3333333333333333333333333333333333333333''"
  "to_checksum_address demo_keccak ''0x4444444444444444444444444444444444444444''
     = Inr ''0x4444444444444444444444444444444444444444''"
  "to_checksum_address demo_keccak ''0x5555555555555555555555555555555555555555''
     = Inr ''0x5555555555555555555555555555555555555555''"
  by (simp_all add: demo_checksum is_hex_address_def remove_0x_prefix_def is_hex_def
      hexval_def lower_def)

lemma demo_fields:
  "usdc_contract_address (demo_env R) = ''0x036cbd53842c5426634e7929541ec2318f3dcf7e''"
  "entrypoint_address (demo_env R) = ''0x0000000071727de22e5e9d8baf0edac6f37da032''"
  "chain_id (demo_env R) = 84532"
  "simple_account_factory (demo_env R) = ''0x91e60e0613810449d098b0b5ec8b51a0fe8c8985''"
  "bundler_rpc_url (demo_env R) = ''https://bundler.example/rpc''"
  "lib_keccak (demo_env R) = demo_keccak"
  "lib_encode (demo_env R) = demo_encode"
  "clock (demo_env R) k = 1700000000000000"
  "store_now (demo_env R) = 1700000000000000"
  "store_new_id (demo_env R) = ''pp-1''"
  "chain_balance (demo_env R) a = Inr 100000000"
  "chain_nonce (demo_env R) a = Inr 0"
  "rpc_pm_stub (demo_env R) op = RpcResult demo_paymaster"
  "rpc_estimate_gas (demo_env R) op = RpcResult demo_gas"
  "rpc_gas_price (demo_env R) = Inr (JStr ''0x3b9aca00'')"
  "rpc_pm_data (demo_env R) op = RpcResult demo_paymaster"
  "privy_sign (demo_env R) wid msg = Inr ''0x5161''"
  "rpc_send (demo_env R) op = RpcResult ''0xabc''"
  "rpc_receipt (demo_env R) h = R"
  by (simp_all add: demo_env_def)

lemma demo_build:
  "build_user_operation (demo_env R) ''0x3333333333333333333333333333333333333333'' cd False
     ''0x1111111111111111111111111111111111111111'' w
   = (Inr (demo_built cd),
      log_call (GetNonce ''0x3333333333333333333333333333333333333333'') w)"
  by (simp add: build_user_operation_def get_nonce_def factory_fields_def encoded_def
      demo_fields demo_addresses bnd_def zero_address_def demo_built_def py_hex_def
      hex_digits.simps [of 0] hexdigit_def hex_of_bytes_def hex_of_byte_def)

lemma demo_sponsor:
  "\<exists>w1. sponsor_user_op (demo_env R) (demo_built cd) w = (Inr (demo_sponsored cd), w1)
        \<and> same_tables w w1 \<and> wallet_users w1 = wallet_users w"
  by (simp add: sponsor_user_op_def Let_def demo_fields demo_sponsored_def same_tables_def
      log_call_def)

lemma wait_for_receipt_fails_at:
  assumes "\<forall>i<j. not_yet_known (rpc_receipt env h i)"
    and "0 \<le> interval" and "real j * interval < timeout"
    and "rpc_receipt env h j = RpcResult (Some rc)" and "\<not> rc_success rc"
  shows "wait_for_receipt env h timeout interval w
           = Some (Inl (UserOpFailed (failure_reason rc)), polled (Suc j) h w)"
proof -
  have t: "\<forall>i<j. 0 + real i * interval < timeout"
  proof (intro allI impI)
    fix i assume "i < j"
    then have "real i * interval \<le> real j * interval"
      using assms(2) by (simp add: mult_right_mono)
    then show "0 + real i * interval < timeout" using assms(3) by simp
  qed
  have "wait_for_receipt env h timeout interval w
          = wait_loop env h timeout interval (0 + real j * interval) (0 + j) (polled j h w)"
    unfolding wait_for_receipt_def using assms(1) t by (intro wait_loop_prefix) simp_all
  then show ?thesis
    using wait_loop_failed [of "real j * interval" timeout env h j rc interval "polled j h w"]
      assms by (simp add: log_polled)
qed

lemma wait_for_receipt_lands_at:
  assumes "\<forall>i<j. not_yet_known (rpc_receipt env h i)"
    and "0 \<le> interval" and "real j * interval < timeout"
    and "rpc_receipt env h j = RpcResult (Some rc)" and "rc_success rc"
  shows "wait_for_receipt env h timeout interval w = Some (Inr rc, polled (Suc j) h w)"
proof -
  have t: "\<forall>i<j. 0 + real i * interval < timeout"
  proof (intro allI impI)
    fix i assume "i < j"
    then have "real i * interval \<le> real j * interval"
      using assms(2) by (simp add: mult_right_mono)
    then show "0 + real i * interval < timeout" using assms(3) by simp
  qed
  have "wait_for_receipt env h timeout interval w
          = wait_loop env h timeout interval (0 + real j * interval) (0 + j) (polled j h w)"
    unfolding wait_for_receipt_def using assms(1) t by (intro wait_loop_prefix) simp_all
  then show ?thesis
    using wait_loop_success [of "real j * interval" timeout env h j rc interval "polled j h w"]
      assms by (simp add: log_polled)
qed

lemma wait_for_receipt_times_out:
  assumes "\<forall>i. not_yet_known (rpc_receipt env h i)" and "0 < interval"
  shows "wait_for_receipt env h timeout interval w
           = Some (Inl (ReceiptTimeout h timeout), polled (nat \<lceil>timeout / interval\<rceil>) h w)"
  unfolding wait_for_receipt_def
  using wait_loop_timeout [OF assms(2), of env h 0 "nat \<lceil>timeout / interval\<rceil>" timeout 0 w]
    assms(1) by simp

lemma demo_hash:
  assumes "hex_to_bytes (JStr cd) = Inr b"
  shows "compute_user_op_hash demo_keccak (demo_sponsored cd)
           ''0x0000000071727de22e5e9d8baf0edac6f37da032'' 84532 = Inr (replicate 32 0)"
  using assms
  by (simp add: compute_user_op_hash_def bnd_def getitem_def dict_get_def dict_get_default_def
      op_init_code_def op_paymaster_and_data_def pack_halves_def to_bytes16_def
      abi_address_def abi_uint256_def abi_bytes32_def is_address_def is_hex_address_def
      is_checksum_formatted_def remove_0x_prefix_def is_upper_def is_lower_def
      demo_sponsored_def merge_keys_def paymaster_keys_def gas_keys_def demo_paymaster_def
      demo_gas_def demo_built_def int16_def is_hex_def hexval_def is_space_def
      length_be_bytes demo_keccak_def zero_address_def)

lemma demo_submit:
  assumes "hex_to_bytes (JStr cd) = Inr b"
  shows "\<exists>w4. same_tables w w4 \<and> wallet_users w4 = wallet_users w
           \<and> submit_user_op (demo_env R) demo_user cd w
               = (case wait_for_receipt (demo_env R) ''0xabc'' 60 2 w4 of
                    None \<Rightarrow> None
                  | Some (Inl e, w5) \<Rightarrow> Some (Inl e, w5)
                  | Some (Inr receipt, w5) \<Rightarrow>
                      Some (Inr (''0xabc'', (case rc_transaction_hash receipt of
                                               None \<Rightarrow> ''0xabc'' | Some h \<Rightarrow> h)),
                            mark_deployed demo_user w5))"
proof -
  define w1 where "w1 = log_call (GetNonce ''0x3333333333333333333333333333333333333333'') w"
  obtain w2 where s: "sponsor_user_op (demo_env R) (demo_built cd) w1
        = (Inr (demo_sponsored cd), w2)"
    and f2: "same_tables w1 w2" and u2: "wallet_users w2 = wallet_users w1"
    using demo_sponsor by blast
  define w3 where
    "w3 = log_call (Sign ''w1'' (''0x'' @ remove_0x (hex_of_bytes (replicate 32 0)))) w2"
  define w4 where
    "w4 = log_call (BundlerRpc ''eth_sendUserOperation''
             (clean_op ((demo_sponsored cd)(''signature'' \<mapsto> JStr ''0x5161'')))) w3"
  have f: "same_tables w w4"
    using f2 by (simp add: same_tables_def w1_def w3_def w4_def log_call_def)
  have u: "wallet_users w4 = wallet_users w"
    using u2 by (simp add: w1_def w3_def w4_def log_call_def)
  have "submit_user_op (demo_env R) demo_user cd w
          = (case wait_for_receipt (demo_env R) ''0xabc'' 60 2 w4 of
               None \<Rightarrow> None
             | Some (Inl e, w5) \<Rightarrow> Some (Inl e, w5)
             | Some (Inr receipt, w5) \<Rightarrow>
                 Some (Inr (''0xabc'', (case rc_transaction_hash receipt of
                                          None \<Rightarrow> ''0xabc'' | Some h \<Rightarrow> h)),
                       mark_deployed demo_user w5))"
    using demo_build [of R cd w] s demo_hash [OF assms]
    by (simp add: submit_user_op_def get_sender_def demo_user_def demo_fields Let_def
        send_user_op_def w1_def w3_def w4_def split: option.splits sum.splits prod.splits)
  then show ?thesis using f u by blast
qed

lemma demo_payment_calldata:
  assumes "0 \<le> amount"
  shows "bnd (build_transfer_calldata (demo_env R) ''0x4444444444444444444444444444444444444444''
                amount)
           (\<lambda>inner_calldata. build_execute_calldata (demo_env R)
                (usdc_contract_address (demo_env R)) 0 inner_calldata)
         = Inr (''0x'' @ hex_of_bytes [182, 29, 39, 246])"
proof -
  have "0 \<le> py_int (amount * 10 ^ USDC_DECIMALS)"
    using assms by (simp add: py_int_def)
  then show ?thesis
    by (simp add: build_transfer_calldata_def build_execute_calldata_def encoded_def bnd_def
        demo_fields demo_addresses data_bytes_hex del: append.simps hex_of_bytes_def)
qed

lemma merge_keys_other: "k \<notin> set ks \<Longrightarrow> merge_keys ks reply op k = op k"
proof -
  have "\<And>acc. k \<notin> set ks \<Longrightarrow>
          foldl (\<lambda>acc k. case reply k of
                           Some v \<Rightarrow> if truthy v then acc(k \<mapsto> v) else acc
                         | None \<Rightarrow> acc) acc ks k = acc k"
    by (induction ks) (auto split: option.splits)
  then show "k \<notin> set ks \<Longrightarrow> merge_keys ks reply op k = op k"
    by (simp add: merge_keys_def)
qed

lemma sends_append: "sends (xs @ ys) = sends xs @ sends ys"
  by (simp add: sends_def)

lemma sends_replicate_poll: "sends (replicate n (ReceiptPoll h)) = []"
  by (induction n) (simp_all add: sends_def)

lemma get_nonce_calls:
  "get_nonce env s w = (r, w1) \<Longrightarrow> \<exists>cs. calls w1 = calls w @ cs \<and> sends cs = []"
  by (auto simp: get_nonce_def log_call_def sends_def split: sum.splits)

lemma build_calls:
  "build_user_operation env s cd d own w = (r, w1) \<Longrightarrow>
     (\<exists>cs. calls w1 = calls w @ cs \<and> sends cs = [])
     \<and> (\<forall>op. r = Inr op \<longrightarrow> op ''callData'' = Some (JStr cd))"
  by (auto simp: build_user_operation_def bnd_def
      split: prod.splits sum.splits if_splits dest: get_nonce_calls)

lemma sponsor_calls:
  "sponsor_user_op env op w = (r, w1) \<Longrightarrow>
     (\<exists>cs. calls w1 = calls w @ cs \<and> sends cs = [])
     \<and> (\<forall>op2. r = Inr op2 \<longrightarrow> op2 ''callData'' = op ''callData'')"
  by (auto simp: sponsor_user_op_def Let_def log_call_def sends_def merge_keys_other
      paymaster_keys_def gas_keys_def split: sum.splits)

lemma clean_op_call_data:
  "op ''callData'' = Some (JStr cd) \<Longrightarrow> clean_op (op(''signature'' \<mapsto> v)) ''callData'' = Some (JStr cd)"
  by (simp add: clean_op_def)

lemma submit_user_op_calls:
  assumes "submit_user_op env u cd w = Some (r, w')"
  shows "\<exists>cs. calls w' = calls w @ cs
           \<and> ((sends cs = [] \<and> isl r)
              \<or> (\<exists>op. sends cs = [BundlerRpc ''eth_sendUserOperation'' op]
                      \<and> op ''callData'' = Some (JStr cd)))"
proof (cases "get_sender u")
  case (Inl e)
  then show ?thesis using assms by (auto simp: submit_user_op_def sends_def)
next
  case (Inr sender)
  obtain r1 w1 where b: "build_user_operation env sender cd (smart_account_deployed u)
      (wallet_address u) w = (r1, w1)" by force
  from build_calls [OF b] obtain c1 where c1: "calls w1 = calls w @ c1" "sends c1 = []"
    and cd1: "\<forall>op. r1 = Inr op \<longrightarrow> op ''callData'' = Some (JStr cd)" by blast
  show ?thesis
  proof (cases r1)
    case (Inl e)
    then show ?thesis using Inr b c1 assms by (auto simp: submit_user_op_def)
  next
    case op: (Inr op)
    show ?thesis
    proof (cases "bundler_rpc_url env = []")
      case True
      then show ?thesis using Inr b op c1 assms by (auto simp: submit_user_op_def)
    next
      case url: False
      obtain r2 w2 where s: "sponsor_user_op env op w1 = (r2, w2)" by force
      from sponsor_calls [OF s] obtain c2 where c2: "calls w2 = calls w1 @ c2" "sends c2 = []"
        and cd2: "\<forall>op2. r2 = Inr op2 \<longrightarrow> op2 ''callData'' = op ''callData''" by blast
      have a2: "calls w2 = calls w @ (c1 @ c2)" "sends (c1 @ c2) = []"
        using c1 c2 by (simp_all add: sends_append)
      show ?thesis
      proof (cases r2)
        case (Inl e)
        then show ?thesis using Inr b op url s a2 assms
          by (auto simp: submit_user_op_def simp del: append_assoc)
      next
        case op2: (Inr op2)
        have cd3: "op2 ''callData'' = Some (JStr cd)" using cd1 cd2 op op2 by simp
        show ?thesis
        proof (cases "compute_user_op_hash (lib_keccak env) op2 (entrypoint_address env)
                        (chain_id env)")
          case (Inl e)
          then show ?thesis using Inr b op url s op2 a2 assms
            by (auto simp: submit_user_op_def simp del: append_assoc)
        next
          case hash: (Inr op_hash)
          define hx where "hx = ''0x'' @ remove_0x (hex_of_bytes op_hash)"
          define w3 where "w3 = log_call (Sign (privy_wallet_id u) hx) w2"
          define c3 where "c3 = c1 @ c2 @ [Sign (privy_wallet_id u) hx]"
          have a3: "calls w3 = calls w @ c3" "sends c3 = []"
            using a2 by (simp_all add: w3_def c3_def log_call_def sends_def)
          show ?thesis
          proof (cases "privy_sign env (privy_wallet_id u) hx")
            case (Inl e)
            then show ?thesis using Inr b op url s op2 hash a3 assms
              by (auto simp: submit_user_op_def Let_def hx_def w3_def)
          next
            case sig: (Inr signature)
            define sent where "sent = clean_op (op2(''signature'' \<mapsto> JStr signature))"
            define w4 where "w4 = log_call (BundlerRpc ''eth_sendUserOperation'' sent) w3"
            define c4 where "c4 = c3 @ [BundlerRpc ''eth_sendUserOperation'' sent]"
            have a4: "calls w4 = calls w @ c4"
              "sends c4 = [BundlerRpc ''eth_sendUserOperation'' sent]"
              using a3 by (simp_all add: w4_def c4_def log_call_def sends_def)
            have sd: "send_user_op env (op2(''signature'' \<mapsto> JStr signature)) w3
                = (rpc_value (rpc_send env sent), w4)"
              by (simp add: send_user_op_def sent_def w4_def)
            have scd: "sent ''callData'' = Some (JStr cd)"
              using cd3 by (simp add: sent_def clean_op_call_data)
            show ?thesis
            proof (cases "rpc_value (rpc_send env sent)")
              case (Inl e)
              then show ?thesis using Inr b op url s op2 hash sig sd a4 scd assms
                by (auto simp: submit_user_op_def Let_def hx_def w3_def)
            next
              case uoh: (Inr user_op_hash)
              from wait_for_receipt_default [of env user_op_hash w4]
              obtain res k where wt: "wait_for_receipt env user_op_hash 60 2 w4
                    = Some (res, polled k user_op_hash w4)" by blast
              define c5 where "c5 = c4 @ replicate k (ReceiptPoll user_op_hash)"
              have a5: "calls (polled k user_op_hash w4) = calls w @ c5"
                "sends c5 = [BundlerRpc ''eth_sendUserOperation'' sent]"
                "calls (mark_deployed u (polled k user_op_hash w4)) = calls w @ c5"
                using a4 by (simp_all add: c5_def polled_def sends_append sends_replicate_poll
                    mark_deployed_def)
              show ?thesis
              proof (cases res)
                case (Inl e)
                then show ?thesis using Inr b op url s op2 hash sig sd uoh wt a5 scd assms
                  by (auto simp: submit_user_op_def Let_def hx_def w3_def)
              next
                case rc: (Inr receipt)
                show ?thesis using Inr b op url s op2 hash sig sd uoh wt rc a5 scd assms
                  by (auto simp: submit_user_op_def Let_def hx_def w3_def)
              qed
            qed
          qed
        qed
      qed
    qed
  qed
qed

lemma demo_wait_lands:
  "wait_for_receipt (demo_env lands) h 60 2 w = Some (Inr (demo_receipt True), polled 3 h w)"
  using wait_for_receipt_lands_at [of 2 "demo_env lands" h 2 60 "demo_receipt True" w]
  by (simp add: demo_fields lands_def demo_receipt_def less_Suc_eq numeral_2_eq_2 numeral_3_eq_3)

lemma demo_wait_reverts:
  "wait_for_receipt (demo_env reverts) h 60 2 w
     = Some (Inl (UserOpFailed ''AA23 reverted''), polled 3 h w)"
  using wait_for_receipt_fails_at [of 2 "demo_env reverts" h 2 60 "demo_receipt False" w]
  by (simp add: demo_fields reverts_def demo_receipt_def failure_reason_def less_Suc_eq
      numeral_2_eq_2 numeral_3_eq_3)

lemma demo_wait_silent:
  "wait_for_receipt (demo_env silent) h 60 2 w
     = Some (Inl (ReceiptTimeout h 60), polled 30 h w)"
  using wait_for_receipt_times_out [of "demo_env silent" h 2 60 w]
  by (simp add: demo_fields silent_def)

lemma demo_sender: "get_sender demo_user = Inr ''0x3333333333333333333333333333333333333333''"
  by (simp add: get_sender_def demo_user_def)

lemma demo_submit_lands:
  assumes "hex_to_bytes (JStr cd) = Inr b"
  shows "\<exists>w'. submit_user_op (demo_env lands) demo_user cd w
                 = Some (Inr (''0xabc'', ''0xfeed''), w') \<and> same_tables w w'"
proof -
  from demo_submit [OF assms, of w lands] obtain w4 where f: "same_tables w w4"
    and s: "submit_user_op (demo_env lands) demo_user cd w
             = (case wait_for_receipt (demo_env lands) ''0xabc'' 60 2 w4 of
                  None \<Rightarrow> None
                | Some (Inl e, w5) \<Rightarrow> Some (Inl e, w5)
                | Some (Inr receipt, w5) \<Rightarrow>
                    Some (Inr (''0xabc'', (case rc_transaction_hash receipt of
                                             None \<Rightarrow> ''0xabc'' | Some h \<Rightarrow> h)),
                          mark_deployed demo_user w5))"
    by blast
  have "submit_user_op (demo_env lands) demo_user cd w
          = Some (Inr (''0xabc'', ''0xfeed''), mark_deployed demo_user (polled 3 ''0xabc'' w4))"
    using s by (simp add: demo_wait_lands demo_receipt_def)
  moreover have "same_tables w (mark_deployed demo_user (polled 3 ''0xabc'' w4))"
    using f by (simp add: same_tables_def mark_deployed_def polled_def)
  ultimately show ?thesis by blast
qed

lemma demo_submit_fails:
  assumes "hex_to_bytes (JStr cd) = Inr b"
  shows "\<exists>w'. submit_user_op (demo_env reverts) demo_user cd w
                 = Some (Inl (UserOpFailed ''AA23 reverted''), w') \<and> same_tables w w'"
    and "\<exists>w'. submit_user_op (demo_env silent) demo_user cd w
                 = Some (Inl (ReceiptTimeout ''0xabc'' 60), w') \<and> same_tables w w'"
proof -
  from demo_submit [OF assms, of w reverts] obtain w4 where f: "same_tables w w4"
    and s: "submit_user_op (demo_env reverts) demo_user cd w
             = (case wait_for_receipt (demo_env reverts) ''0xabc'' 60 2 w4 of
                  None \<Rightarrow> None
                | Some (Inl e, w5) \<Rightarrow> Some (Inl e, w5)
                | Some (Inr receipt, w5) \<Rightarrow>
                    Some (Inr (''0xabc'', (case rc_transaction_hash receipt of
                                             None \<Rightarrow> ''0xabc'' | Some h \<Rightarrow> h)),
                          mark_deployed demo_user w5))"
    by blast
  have "submit_user_op (demo_env reverts) demo_user cd w
          = Some (Inl (UserOpFailed ''AA23 reverted''), polled 3 ''0xabc'' w4)"
    using s by (simp add: demo_wait_reverts)
  moreover have "same_tables w (polled 3 ''0xabc'' w4)"
    using f by (simp add: same_tables_def polled_def)
  ultimately show "\<exists>w'. submit_user_op (demo_env reverts) demo_user cd w
                 = Some (Inl (UserOpFailed ''AA23 reverted''), w') \<and> same_tables w w'" by blast
next
  from demo_submit [OF assms, of w silent] obtain w4 where f: "same_tables w w4"
    and s: "submit_user_op (demo_env silent) demo_user cd w
             = (case wait_for_receipt (demo_env silent) ''0xabc'' 60 2 w4 of
                  None \<Rightarrow> None
                | Some (Inl e, w5) \<Rightarrow> Some (Inl e, w5)
                | Some (Inr receipt, w5) \<Rightarrow>
                    Some (Inr (''0xabc'', (case rc_transaction_hash receipt of
                                             None \<Rightarrow> ''0xabc'' | Some h \<Rightarrow> h)),
                          mark_deployed demo_user w5))"
    by blast
  have "submit_user_op (demo_env silent) demo_user cd w
          = Some (Inl (ReceiptTimeout ''0xabc'' 60), polled 30 ''0xabc'' w4)"
    using s by (simp add: demo_wait_silent)
  moreover have "same_tables w (polled 30 ''0xabc'' w4)"
    using f by (simp add: same_tables_def polled_def)
  ultimately show "\<exists>w'. submit_user_op (demo_env silent) demo_user cd w
                 = Some (Inl (ReceiptTimeout ''0xabc'' 60), w') \<and> same_tables w w'" by blast
qed

lemma demo_call_data_parses: "hex_to_bytes (JStr (''0x'' @ hex_of_bytes bs)) = Inr bs"
  by (rule hex_to_bytes_hex)

lemma demo_execute_lands:
  assumes "0 \<le> amount"
  shows "\<exists>w'. execute_payment (demo_env lands) demo_user
                 ''0x4444444444444444444444444444444444444444'' amount memo w
               = Some (Inr (Completed ''0xfeed'' ''0xabc''), w')
             \<and> wallet_transactions w' = wallet_transactions w @
                 [transaction_row (demo_env lands) demo_user ''payment'' amount
                    ''0x3333333333333333333333333333333333333333''
                    ''0x4444444444444444444444444444444444444444'' memo ''0xfeed'' ''0xabc'']
             \<and> wallet_pending_payments w' = wallet_pending_payments w"
proof -
  from demo_submit_lands [OF hex_to_bytes_hex, of "[182, 29, 39, 246]" w]
  obtain w1 where s: "submit_user_op (demo_env lands) demo_user
        (''0x'' @ hex_of_bytes [182, 29, 39, 246]) w = Some (Inr (''0xabc'', ''0xfeed''), w1)"
    and f: "same_tables w w1" by blast
  show ?thesis
    using demo_payment_calldata [OF assms, of lands] s f
    by (simp add: execute_payment_def demo_sender same_tables_def
        del: append.simps hex_of_bytes_def)
qed

lemma demo_execute_fails:
  assumes "0 \<le> amount"
  shows "\<exists>w'. execute_payment (demo_env reverts) demo_user
                 ''0x4444444444444444444444444444444444444444'' amount memo w
               = Some (Inl (UserOpFailed ''AA23 reverted''), w') \<and> same_tables w w'"
    and "\<exists>w'. execute_payment (demo_env silent) demo_user
                 ''0x4444444444444444444444444444444444444444'' amount memo w
               = Some (Inl (ReceiptTimeout ''0xabc'' 60), w') \<and> same_tables w w'"
proof -
  from demo_submit_fails(1) [OF hex_to_bytes_hex, of "[182, 29, 39, 246]" w]
  obtain w1 where s: "submit_user_op (demo_env reverts) demo_user
        (''0x'' @ hex_of_bytes [182, 29, 39, 246]) w
          = Some (Inl (UserOpFailed ''AA23 reverted''), w1)"
    and f: "same_tables w w1" by blast
  show "\<exists>w'. execute_payment (demo_env reverts) demo_user
                 ''0x4444444444444444444444444444444444444444'' amount memo w
               = Some (Inl (UserOpFailed ''AA23 reverted''), w') \<and> same_tables w w'"
    using demo_payment_calldata [OF assms, of reverts] s f
    by (simp add: execute_payment_def demo_sender del: append.simps hex_of_bytes_def)
next
  from demo_submit_fails(2) [OF hex_to_bytes_hex, of "[182, 29, 39, 246]" w]
  obtain w1 where s: "submit_user_op (demo_env silent) demo_user
        (''0x'' @ hex_of_bytes [182, 29, 39, 246]) w
          = Some (Inl (ReceiptTimeout ''0xabc'' 60), w1)"
    and f: "same_tables w w1" by blast
  show "\<exists>w'. execute_payment (demo_env silent) demo_user
                 ''0x4444444444444444444444444444444444444444'' amount memo w
               = Some (Inl (ReceiptTimeout ''0xabc'' 60), w') \<and> same_tables w w'"
    using demo_payment_calldata [OF assms, of silent] s f
    by (simp add: execute_payment_def demo_sender del: append.simps hex_of_bytes_def)
qed

lemma demo_balance:
  "get_balance (demo_env R) ''0x3333333333333333333333333333333333333333'' w
     = (Inr 100, log_call (BalanceOf ''0x3333333333333333333333333333333333333333'') w)"
  by (simp add: get_balance_def bnd_def demo_fields demo_addresses USDC_DECIMALS_def)

lemma demo_limits:
  "amount \<le> 10 \<Longrightarrow> check_limits (demo_env R) demo_user amount demo_world = Inr ()"
  by (simp add: check_limits_def per_tx_limit_def daily_limit_of_def today_total_def
      demo_user_def demo_world_def)

section \<open>The claims\<close>

subsection \<open>The operation hash\<close>

text \<open>
  C1. \<open>compute_user_op_hash\<close> follows the algorithm of the specification. For every
  hash function that returns 32 bytes, every operation in wire form, every valid entry
  point address and every chain id below \<open>2^256\<close>, it returns \<open>hash_spec\<close> of the typed
  operation: init payload and call payload hashed separately, the gas limits and the fees
  packed as 16-byte big-endian halves, the paymaster data hashed, the eight-tuple encoded
  and hashed, and that hash encoded with entry point and chain id and hashed again. The
  result is 32 bytes long. The function reads nothing but its arguments, so equal
  arguments give equal bytes.
\<close>

theorem compute_user_op_hash_spec:
  assumes "\<forall>bs. length (keccak bs) = 32"
    and "wire_form keccak op t"
    and "abi_address keccak (JStr entrypoint) = Inr (replicate 12 0 @ entry_point)"
    and "cid < 2 ^ 256"
  shows "compute_user_op_hash keccak op entrypoint (int cid)
           = Inr (hash_spec keccak t entry_point cid)
         \<and> length (hash_spec keccak t entry_point cid) = 32"
  using assms by (rule hash_refines)

lemma example_wire_form: "wire_form demo_keccak example_op example_operation"
  by (simp add: wire_form_def example_op_def example_operation_def has_factory_def
      dict_get_def dict_get_default_def reads_as_def abi_address_def is_address_def
      is_hex_address_def is_checksum_formatted_def remove_0x_prefix_def is_hex_def hexval_def
      is_space_def is_upper_def is_lower_def int16_def zero_address_def)

lemma example_entry_point_word:
  "abi_address demo_keccak (JStr ''0x0000000071727de22e5e9d8baf0edac6f37da032'')
     = Inr (replicate 12 0 @ example_entry_point)"
  by (simp add: abi_address_def is_address_def is_hex_address_def is_checksum_formatted_def
      remove_0x_prefix_def is_hex_def hexval_def is_space_def is_upper_def is_lower_def
      example_entry_point_def)

theorem compute_user_op_hash_spec_witness:
  "(\<forall>bs. length (demo_keccak bs) = 32)
   \<and> wire_form demo_keccak example_op example_operation
   \<and> abi_address demo_keccak (JStr ''0x0000000071727de22e5e9d8baf0edac6f37da032'')
       = Inr (replicate 12 0 @ example_entry_point)
   \<and> (84532::nat) < 2 ^ 256
   \<and> compute_user_op_hash demo_keccak example_op
       ''0x0000000071727de22e5e9d8baf0edac6f37da032'' (int 84532)
       = Inr (hash_spec demo_keccak example_operation example_entry_point 84532)
   \<and> length (hash_spec demo_keccak example_operation example_entry_point 84532) = 32"
proof -
  have k: "\<forall>bs. length (demo_keccak bs) = 32" by (simp add: demo_keccak_def)
  have c: "(84532::nat) < 2 ^ 256" by simp
  show ?thesis
    using compute_user_op_hash_spec [OF k example_wire_form example_entry_point_word c]
      k example_wire_form example_entry_point_word c
    by blast
qed

text \<open>
  C10. The hash does not read the signature: replacing the \<open>signature\<close> entry of an
  operation by any value, or removing it, leaves \<open>compute_user_op_hash\<close> unchanged,
  whether it returns a hash or raises.
\<close>

theorem hash_ignores_signature:
  "compute_user_op_hash keccak (op(''signature'' := s)) entrypoint cid =
   compute_user_op_hash keccak op entrypoint cid"
  by (simp add: compute_user_op_hash_def op_init_code_def op_paymaster_and_data_def
      getitem_def dict_get_def dict_get_default_def)

subsection \<open>pay\<close>

lemma get_balance_world:
  "get_balance env s w = (Inr b, w1) \<Longrightarrow> \<exists>a. w1 = log_call (BalanceOf a) w"
  by (auto simp: get_balance_def bnd_def split: sum.splits)

text \<open>
  C2. A payment that passes the sender, limit and balance checks and is strictly above
  the confirmation threshold is parked: \<open>pay\<close> returns the pending-confirmation result
  with the id the store gave the row and the expiry, appends exactly one pending payment
  in status \<open>Pending\<close> that expires ten minutes after the clock reading, leaves the
  transactions and users untouched, and the only outbound call of the whole invocation is
  the balance read of the check itself: nothing is built, signed or submitted.
\<close>

theorem pay_above_threshold_is_pending:
  assumes s: "get_sender u = Inr sender"
    and l: "check_limits env u amount w = Inr ()"
    and b: "get_balance env sender w = (Inr balance, w1)"
    and enough: "amount \<le> balance"
    and big: "confirmation_threshold u < amount"
  shows "\<exists>w' a. pay env u to_address amount memo w
             = Some (Inr (PendingConfirmation (store_new_id env)
                            (clock env 1 + minutes 10)), w')
         \<and> wallet_pending_payments w' = wallet_pending_payments w @
             [\<lparr>pp_id = store_new_id env, pp_user_id = user_id u, pp_to_address = to_address,
               pp_amount = amount, pp_memo = memo,
               pp_expires_at = clock env 1 + minutes 10, pp_status = Pending\<rparr>]
         \<and> wallet_transactions w' = wallet_transactions w
         \<and> wallet_users w' = wallet_users w
         \<and> calls w' = calls w @ [BalanceOf a]"
proof -
  from b obtain a where w1: "w1 = log_call (BalanceOf a) w"
    using get_balance_world by blast
  show ?thesis
    using s l b enough big w1
    by (simp add: pay_def new_pending_payment_def PENDING_PAYMENT_TTL_MINUTES_def Let_def
        log_call_def)
qed

theorem pay_above_threshold_is_pending_witness:
  "get_sender demo_user = Inr ''0x3333333333333333333333333333333333333333''
   \<and> check_limits (demo_env silent) demo_user 7 demo_world = Inr ()
   \<and> get_balance (demo_env silent) ''0x3333333333333333333333333333333333333333'' demo_world
       = (Inr 100, log_call (BalanceOf ''0x3333333333333333333333333333333333333333'') demo_world)
   \<and> (7::real) \<le> 100
   \<and> confirmation_threshold demo_user < 7
   \<and> (\<exists>w' a. pay (demo_env silent) demo_user ''0x4444444444444444444444444444444444444444'' 7
                 (Some ''rent'') demo_world
               = Some (Inr (PendingConfirmation ''pp-1'' 1700000600000000), w')
            \<and> map pp_status (wallet_pending_payments w') = [Pending]
            \<and> map pp_expires_at (wallet_pending_payments w') = [1700000600000000]
            \<and> wallet_transactions w' = []
            \<and> calls w' = [BalanceOf a])"
proof -
  have l: "check_limits (demo_env silent) demo_user 7 demo_world = Inr ()"
    by (simp add: demo_limits)
  have t: "confirmation_threshold demo_user < 7"
    by (simp add: confirmation_threshold_def demo_user_def)
  have e: "(7::real) \<le> 100" by simp
  show ?thesis
    using pay_above_threshold_is_pending [OF demo_sender l demo_balance e t,
        of "''0x4444444444444444444444444444444444444444''" "Some ''rent''"]
      demo_sender l demo_balance [of silent demo_world] t
    by (auto simp: demo_fields minutes_def demo_world_def)
qed

text \<open>
  C5, as the code has it. A payment strictly above the per-transaction limit fails with
  a \<open>ValueError\<close> and changes nothing: no pending payment, no transaction, no event, no
  outbound call. When the account has a smart-account address the error is the
  per-transaction-limit error, carrying the amount and the limit; an account without
  one is stopped one line earlier by the smart-account check.
\<close>

theorem pay_over_per_transaction_limit:
  assumes "per_tx_limit u < amount"
  shows "pay env u to_address amount memo w
           = Some (Inl (case get_sender u of
                          Inl e \<Rightarrow> e
                        | Inr sender \<Rightarrow> PerTransactionLimitExceeded amount (per_tx_limit u)), w)
         \<and> is_ValueError (case get_sender u of
                            Inl e \<Rightarrow> e
                          | Inr sender \<Rightarrow> PerTransactionLimitExceeded amount (per_tx_limit u))"
  using assms
  by (auto simp: pay_def check_limits_def get_sender_def split: sum.splits option.splits)

theorem pay_over_per_transaction_limit_witness:
  "per_tx_limit demo_user < 11
   \<and> pay (demo_env lands) demo_user ''0x4444444444444444444444444444444444444444'' 11 None
       demo_world
       = Some (Inl (PerTransactionLimitExceeded 11 10), demo_world)"
proof -
  have l: "per_tx_limit demo_user < 11" by (simp add: per_tx_limit_def demo_user_def)
  show ?thesis
    using pay_over_per_transaction_limit [OF l, of "demo_env lands"
        "''0x4444444444444444444444444444444444444444''" None demo_world] l
    by (simp add: demo_sender) (simp add: per_tx_limit_def demo_user_def)
qed

text \<open>
  The claim as first stated, with the limit named in the error of every such call, fails
  for an account that has no smart-account address.
\<close>

theorem pay_over_limit_without_smart_account:
  "per_tx_limit legacy_user < 11
   \<and> pay (demo_env lands) legacy_user ''0x4444444444444444444444444444444444444444'' 11 None
       demo_world
       = Some (Inl SmartAccountNotConfigured, demo_world)
   \<and> pay (demo_env lands) legacy_user ''0x4444444444444444444444444444444444444444'' 11 None
       demo_world
       \<noteq> Some (Inl (PerTransactionLimitExceeded 11 (per_tx_limit legacy_user)), demo_world)"
  by (simp add: pay_def get_sender_def legacy_user_def demo_user_def per_tx_limit_def)

text \<open>
  C4, as the code has it. The check \<open>amount > 0\<close> is made by the request model of the
  HTTP entry point, before \<open>pay\<close> is called: a request with an amount of zero or less is
  rejected with nothing read and nothing changed, so no limit or balance is consulted,
  no outbound call is made and no pending payment or transaction is created.
\<close>

theorem pay_endpoint_rejects_nonpositive:
  assumes "amount \<le> 0"
  shows "pay_endpoint env u to_address amount memo w = Some (Rejected, w)"
  using assms by (simp add: pay_endpoint_def)

theorem pay_endpoint_rejects_nonpositive_witness:
  "(0::real) \<le> 0
   \<and> pay_endpoint (demo_env lands) demo_user ''0x4444444444444444444444444444444444444444'' 0
       None demo_world = Some (Rejected, demo_world)"
  using pay_endpoint_rejects_nonpositive [of 0 "demo_env lands" demo_user
      "''0x4444444444444444444444444444444444444444''" None demo_world]
  by simp

text \<open>
  The function \<open>pay\<close> itself has no such check. Called with amount zero it passes the
  limits, reads the balance, settles on chain and records a transaction of amount zero.
\<close>

lemma demo_threshold: "confirmation_threshold demo_user = 5"
  by (simp add: confirmation_threshold_def demo_user_def)

lemma demo_pay_zero:
  "\<exists>w'. pay (demo_env lands) demo_user ''0x4444444444444444444444444444444444444444'' 0 None
          demo_world = Some (Inr (Completed ''0xfeed'' ''0xabc''), w')
        \<and> map tx_amount (wallet_transactions w') = [0]"
proof -
  define w1 where
    "w1 = log_call (BalanceOf ''0x3333333333333333333333333333333333333333'') demo_world"
  from demo_execute_lands [of 0 None w1]
  obtain w' where e: "execute_payment (demo_env lands) demo_user
        ''0x4444444444444444444444444444444444444444'' 0 None w1
          = Some (Inr (Completed ''0xfeed'' ''0xabc''), w')"
    and t: "wallet_transactions w' = wallet_transactions w1 @
        [transaction_row (demo_env lands) demo_user ''payment'' 0
           ''0x3333333333333333333333333333333333333333''
           ''0x4444444444444444444444444444444444444444'' None ''0xfeed'' ''0xabc'']"
    by auto
  have "pay (demo_env lands) demo_user ''0x4444444444444444444444444444444444444444'' 0 None
          demo_world = Some (Inr (Completed ''0xfeed'' ''0xabc''), w')"
    using e demo_limits [of 0 lands] demo_balance [of lands demo_world] demo_threshold
    by (simp add: pay_def demo_sender w1_def)
  moreover have "map tx_amount (wallet_transactions w') = [0]"
    using t by (simp add: w1_def log_call_def demo_world_def transaction_row_def)
  ultimately show ?thesis by (intro exI [of _ w'] conjI)
qed

theorem pay_accepts_amount_zero:
  "(0::real) \<le> 0
   \<and> map_option fst (pay (demo_env lands) demo_user
        ''0x4444444444444444444444444444444444444444'' 0 None demo_world)
       = Some (Inr (Completed ''0xfeed'' ''0xabc''))
   \<and> map_option (map tx_amount \<circ> wallet_transactions \<circ> snd) (pay (demo_env lands) demo_user
        ''0x4444444444444444444444444444444444444444'' 0 None demo_world)
       = Some [0]"
  using demo_pay_zero by auto

end
